theory Spec2Isabelle
  imports Complex_Main "HOL-Library.Log_Nat"
begin

section \<open>Python values\<close>

text \<open>
  The records of the shelter are Python dictionaries from field names to values, and so
  are the queries and the patches. A dictionary is an association list in insertion
  order (the order in which \<^verbatim>\<open>items()\<close> iterates); its keys are strings and are
  looked up with \<open>map_of\<close>. A string is a list of code points below 256.

  A finite float is the rational number that the binary64 value is; the three special
  values stand beside it, and the negative zero is not told from zero. Whatever makes a
  float of a number (a literal, \<^verbatim>\<open>float\<close> of a string or of an \<^verbatim>\<open>int\<close>) rounds to
  the nearest binary64, ties to even (\<open>round64\<close>), and \<^verbatim>\<open>repr\<close> prints the
  shortest decimal that rounds back to the value (\<open>shortest\<close>).
  Object identity is not modelled: every entry of a list is a value of its own.
\<close>

datatype pyfloat = Fin rat | PInf | NInf | NaN

datatype pyval =
    PNone
  | PBool bool
  | PInt int
  | PFloat pyfloat
  | PStr string
  | PList "pyval list"
  | PDict "(string \<times> pyval) list"

type_synonym pydict = "(string \<times> pyval) list"

datatype exn = ValueError | TypeError | OverflowError | Exception

subsection \<open>Equality: \<^verbatim>\<open>==\<close> and \<^verbatim>\<open>!=\<close>\<close>

text \<open>\<^verbatim>\<open>bool\<close>, \<^verbatim>\<open>int\<close> and \<^verbatim>\<open>float\<close> compare by numeric value.\<close>

fun num_of :: "pyval \<Rightarrow> pyfloat option" where
  "num_of (PBool b) = Some (Fin (if b then 1 else 0))"
| "num_of (PInt n) = Some (Fin (of_int n))"
| "num_of (PFloat f) = Some f"
| "num_of _ = None"

fun float_eq :: "pyfloat \<Rightarrow> pyfloat \<Rightarrow> bool" where
  "float_eq (Fin a) b = (case b of Fin c \<Rightarrow> a = c | _ \<Rightarrow> False)"
| "float_eq PInf b = (b = PInf)"
| "float_eq NInf b = (b = NInf)"
| "float_eq NaN b = False"

fun float_lt :: "pyfloat \<Rightarrow> pyfloat \<Rightarrow> bool" where
  "float_lt NaN _ = False"
| "float_lt _ NaN = False"
| "float_lt (Fin a) (Fin b) = (a < b)"
| "float_lt NInf NInf = False"
| "float_lt NInf _ = True"
| "float_lt _ NInf = False"
| "float_lt PInf _ = False"
| "float_lt _ PInf = True"

definition float_gt :: "pyfloat \<Rightarrow> pyfloat \<Rightarrow> bool" where
  "float_gt a b = float_lt b a"

definition float_le :: "pyfloat \<Rightarrow> pyfloat \<Rightarrow> bool" where
  "float_le a b = (float_lt a b \<or> float_eq a b)"

fun py_eq :: "pyval \<Rightarrow> pyval \<Rightarrow> bool"
  and py_eq_list :: "pyval list \<Rightarrow> pyval list \<Rightarrow> bool"
  and py_eq_items :: "pydict \<Rightarrow> pydict \<Rightarrow> bool" where
  "py_eq PNone b = (b = PNone)"
| "py_eq (PStr s) b = (b = PStr s)"
| "py_eq (PList xs) b = (case b of PList ys \<Rightarrow> py_eq_list xs ys | _ \<Rightarrow> False)"
| "py_eq (PDict d) b =
     (case b of PDict e \<Rightarrow> length d = length e \<and> py_eq_items d e | _ \<Rightarrow> False)"
| "py_eq a b =
     (case (num_of a, num_of b) of (Some x, Some y) \<Rightarrow> float_eq x y | _ \<Rightarrow> False)"
| "py_eq_list [] ys = (ys = [])"
| "py_eq_list (x # xs) ys =
     (case ys of [] \<Rightarrow> False | y # ys' \<Rightarrow> py_eq x y \<and> py_eq_list xs ys')"
| "py_eq_items [] e = True"
| "py_eq_items ((k, v) # d) e =
     (case map_of e k of None \<Rightarrow> False | Some w \<Rightarrow> py_eq v w \<and> py_eq_items d e)"

definition py_ne :: "pyval \<Rightarrow> pyval \<Rightarrow> bool" where
  "py_ne a b = (\<not> py_eq a b)"

subsection \<open>Rounding to binary64\<close>

definition scale2 :: "rat \<Rightarrow> int \<Rightarrow> rat" where
  "scale2 q e = (if 0 \<le> e then q * 2 ^ nat e else q / 2 ^ nat (- e))"

definition scale10 :: "rat \<Rightarrow> int \<Rightarrow> rat" where
  "scale10 q e = (if 0 \<le> e then q * 10 ^ nat e else q / 10 ^ nat (- e))"

text \<open>
  The integer part of the logarithm of \<open>a\<close> to the base \<open>b\<close>, for \<open>0 < a\<close>;
  \<open>floorlog b n\<close> is the number of digits of \<open>n\<close> to the base \<open>b\<close>.
\<close>

definition ilog :: "nat \<Rightarrow> rat \<Rightarrow> int" where
  "ilog b a =
     (if 1 \<le> a then int (floorlog b (nat \<lfloor>a\<rfloor>)) - 1
      else - int (floorlog b (nat (\<lceil>1 / a\<rceil> - 1))))"

text \<open>The nearest integer, the even one of the two when \<open>r\<close> is half-way.\<close>

definition round_even :: "rat \<Rightarrow> int" where
  "round_even r =
     (if r - of_int \<lfloor>r\<rfloor> < 1 / 2 \<or> (r - of_int \<lfloor>r\<rfloor> = 1 / 2 \<and> even \<lfloor>r\<rfloor>) then \<lfloor>r\<rfloor>
      else \<lfloor>r\<rfloor> + 1)"

text \<open>
  A binary64 has 53 significant bits, and no bit below \<open>2 ^ - 1074\<close>: the last bit
  of the binary64 next to \<open>a\<close> is worth \<open>2 ^ ulp_exp a\<close>, and \<open>a\<close> is rounded to a
  multiple of it. A value below half of \<open>2 ^ - 1074\<close> becomes zero.
\<close>

definition ulp_exp :: "rat \<Rightarrow> int" where
  "ulp_exp a = max (ilog 2 a - 52) (- 1074)"

definition round_at :: "int \<Rightarrow> rat \<Rightarrow> rat" where
  "round_at q a = scale2 (of_int (round_even (scale2 a (- q)))) q"

definition round64 :: "rat \<Rightarrow> rat" where
  "round64 r = (if r = 0 then 0 else sgn r * round_at (ulp_exp \<bar>r\<bar>) \<bar>r\<bar>)"

text \<open>
  A value at or beyond \<open>2 ^ 1024 - 2 ^ 970\<close> rounds to \<open>2 ^ 1024\<close>, which binary64
  does not have: a literal or a string there denotes an infinity, an \<^verbatim>\<open>int\<close> there
  raises \<^verbatim>\<open>OverflowError\<close>.
\<close>

definition float_limit :: rat where
  "float_limit = 2 ^ 1024 - 2 ^ 970"

definition float_of_rat :: "rat \<Rightarrow> pyfloat" where
  "float_of_rat q =
     (if float_limit \<le> q then PInf else if q \<le> - float_limit then NInf else Fin (round64 q))"

text \<open>The value of a float literal of the source, such as \<^verbatim>\<open>30.75\<close>.\<close>

definition float_lit :: "rat \<Rightarrow> pyval" where
  "float_lit q = PFloat (float_of_rat q)"

subsection \<open>\<^verbatim>\<open>str\<close>\<close>

definition digit_char :: "nat \<Rightarrow> char" where
  "digit_char d = ''0123456789abcdef'' ! d"

function str_nat :: "nat \<Rightarrow> string" where
  "str_nat n = (if n < 10 then [digit_char n] else str_nat (n div 10) @ [digit_char (n mod 10)])"
  by pat_completeness auto
termination
  by (relation "measure id") auto

declare str_nat.simps [simp del]

definition str_int :: "int \<Rightarrow> string" where
  "str_int n = (if n < 0 then CHR ''-'' # str_nat (nat (- n)) else str_nat (nat n))"

definition strip_zeros :: "string \<Rightarrow> string" where
  "strip_zeros ds = rev (dropWhile (\<lambda>c. c = CHR ''0'') (rev ds))"

definition pad2 :: "string \<Rightarrow> string" where
  "pad2 ds = (if length ds < 2 then CHR ''0'' # ds else ds)"

definition sci :: "string \<Rightarrow> string \<Rightarrow> string \<Rightarrow> string" where
  "sci ds sign_str ex =
     (case ds of
        [] \<Rightarrow> []
      | d # rest \<Rightarrow> d # (if rest = [] then [] else CHR ''.'' # rest) @ ''e'' @ sign_str @ pad2 ex)"

text \<open>
  \<^verbatim>\<open>repr\<close> of a positive float \<open>x\<close> is the shortest decimal that \<^verbatim>\<open>float\<close>
  reads back as \<open>x\<close>, and of the decimals of that length the one next to \<open>x\<close>.
  \<open>roundtrips x j m\<close>: the decimal \<open>m * 10 ^ j\<close> is read back as \<open>x\<close>. Of the
  decimals whose last digit is worth \<open>10 ^ j\<close> only the two around \<open>x\<close> can do so;
  \<open>repr_try\<close> takes the nearer of those that do (the even one when both are as near).
  \<open>shortest\<close> starts with one digit and adds digits down to the seventeenth, which
  always suffices.
\<close>

definition roundtrips :: "rat \<Rightarrow> int \<Rightarrow> int \<Rightarrow> bool" where
  "roundtrips x j m = (round64 (scale10 (of_int m) j) = x)"

definition repr_pick :: "rat \<Rightarrow> int \<Rightarrow> int \<Rightarrow> int option" where
  "repr_pick x j lo =
     (if roundtrips x j lo \<and> (\<not> roundtrips x j (lo + 1) \<or> round_even (scale10 x (- j)) = lo)
      then Some lo
      else if roundtrips x j (lo + 1) then Some (lo + 1)
      else None)"

definition repr_try :: "rat \<Rightarrow> int \<Rightarrow> int option" where
  "repr_try x j = repr_pick x j \<lfloor>scale10 x (- j)\<rfloor>"

function shortest :: "rat \<Rightarrow> int \<Rightarrow> int \<Rightarrow> int \<times> int" where
  "shortest x j stop =
     (if j \<le> stop then (round_even (scale10 x (- j)), j)
      else (case repr_try x j of
              Some m \<Rightarrow> (m, j)
            | None \<Rightarrow> shortest x (j - 1) stop))"
  by pat_completeness auto
termination
  by (relation "measure (\<lambda>(x, j, stop). nat (j - stop))") auto

declare shortest.simps [simp del]

text \<open>
  The digits \<open>ds\<close> with the decimal point after the first \<open>decpt\<close> of them:
  positional from \<open>1e-4\<close> up to \<open>1e16\<close> (always with a fractional part,
  \<^verbatim>\<open>45.0\<close>), scientific outside (\<^verbatim>\<open>1e+16\<close>, \<^verbatim>\<open>1.5e-05\<close>).
\<close>

definition format_digits :: "string \<Rightarrow> int \<Rightarrow> string" where
  "format_digits ds decpt =
     (if decpt \<le> - 4 \<or> 16 < decpt then
        sci ds (if decpt < 1 then ''-'' else ''+'') (str_nat (nat \<bar>decpt - 1\<bar>))
      else if decpt \<le> 0 then ''0.'' @ replicate (nat (- decpt)) CHR ''0'' @ ds
      else if int (length ds) \<le> decpt then
        ds @ replicate (nat (decpt - int (length ds))) CHR ''0'' @ ''.0''
      else take (nat decpt) ds @ ''.'' @ drop (nat decpt) ds)"

definition format_repr :: "int \<times> int \<Rightarrow> string" where
  "format_repr mj =
     format_digits (strip_zeros (str_nat (nat (fst mj))))
       (int (length (str_nat (nat (fst mj)))) + snd mj)"

definition str_pos_float :: "rat \<Rightarrow> string" where
  "str_pos_float a =
     (if a = 0 then ''0.0'' else format_repr (shortest a (ilog 10 a) (ilog 10 a - 16)))"

fun str_float :: "pyfloat \<Rightarrow> string" where
  "str_float NaN = ''nan''"
| "str_float PInf = ''inf''"
| "str_float NInf = ''-inf''"
| "str_float (Fin q) = (if q < 0 then CHR ''-'' # str_pos_float (- q) else str_pos_float q)"

text \<open>
  \<^verbatim>\<open>repr\<close> of a string: single quotes, unless the string holds a single quote and no
  double quote; the backslash, the chosen quote and the non-printable code points are
  escaped.
\<close>

definition is_printable :: "char \<Rightarrow> bool" where
  "is_printable c =
     (let n = (of_char c :: nat)
      in (32 \<le> n \<and> n \<le> 126) \<or> (161 \<le> n \<and> n \<noteq> 173))"

definition hex2 :: "nat \<Rightarrow> string" where
  "hex2 n = [digit_char (n div 16), digit_char (n mod 16)]"

definition esc_char :: "char \<Rightarrow> char \<Rightarrow> string" where
  "esc_char q c =
     (if c = q \<or> c = CHR 0x5C then [CHR 0x5C, c]
      else if c = CHR 0x09 then [CHR 0x5C, CHR ''t'']
      else if c = CHR 0x0A then [CHR 0x5C, CHR ''n'']
      else if c = CHR 0x0D then [CHR 0x5C, CHR ''r'']
      else if is_printable c then [c]
      else [CHR 0x5C, CHR ''x''] @ hex2 (of_char c))"

definition repr_str :: "string \<Rightarrow> string" where
  "repr_str s =
     (let q = (if CHR 0x27 \<in> set s \<and> CHR 0x22 \<notin> set s then CHR 0x22 else CHR 0x27)
      in q # concat (map (esc_char q) s) @ [q])"

fun join :: "string \<Rightarrow> string list \<Rightarrow> string" where
  "join sep [] = []"
| "join sep [x] = x"
| "join sep (x # y # ys) = x @ sep @ join sep (y # ys)"

fun py_repr :: "pyval \<Rightarrow> string"
  and py_repr_list :: "pyval list \<Rightarrow> string list"
  and py_repr_items :: "pydict \<Rightarrow> string list" where
  "py_repr PNone = ''None''"
| "py_repr (PBool b) = (if b then ''True'' else ''False'')"
| "py_repr (PInt n) = str_int n"
| "py_repr (PFloat f) = str_float f"
| "py_repr (PStr s) = repr_str s"
| "py_repr (PList xs) = ''['' @ join '', '' (py_repr_list xs) @ '']''"
| "py_repr (PDict d) = ''{'' @ join '', '' (py_repr_items d) @ ''}''"
| "py_repr_list [] = []"
| "py_repr_list (x # xs) = py_repr x # py_repr_list xs"
| "py_repr_items [] = []"
| "py_repr_items ((k, v) # d) = (repr_str k @ '': '' @ py_repr v) # py_repr_items d"

definition py_str :: "pyval \<Rightarrow> string" where
  "py_str v = (case v of PStr s \<Rightarrow> s | _ \<Rightarrow> py_repr v)"

subsection \<open>\<^verbatim>\<open>float\<close>\<close>

definition is_space :: "char \<Rightarrow> bool" where
  "is_space c =
     (let n = (of_char c :: nat)
      in (9 \<le> n \<and> n \<le> 13) \<or> (28 \<le> n \<and> n \<le> 32) \<or> n = 133 \<or> n = 160)"

definition strip :: "string \<Rightarrow> string" where
  "strip s = rev (dropWhile is_space (rev (dropWhile is_space s)))"

definition is_dec :: "char \<Rightarrow> bool" where
  "is_dec c = (let n = (of_char c :: nat) in 48 \<le> n \<and> n \<le> 57)"

definition dec_val :: "char \<Rightarrow> nat" where
  "dec_val c = of_char c - 48"

definition nat_of_digits :: "string \<Rightarrow> nat" where
  "nat_of_digits ds = foldl (\<lambda>a c. 10 * a + dec_val c) 0 ds"

definition lower :: "char \<Rightarrow> char" where
  "lower c = (let n = (of_char c :: nat) in if 65 \<le> n \<and> n \<le> 90 then char_of (n + 32) else c)"

text \<open>
  A run of digits in which single underscores may stand between two digits; the result
  is the digits read and the rest of the input.
\<close>

fun digits_tail :: "string \<Rightarrow> string \<times> string" where
  "digits_tail [] = ([], [])"
| "digits_tail (c # cs) =
     (if is_dec c then (let (ds, r) = digits_tail cs in (c # ds, r))
      else if c = CHR ''_'' then
        (case cs of
           [] \<Rightarrow> ([], c # cs)
         | d # cs' \<Rightarrow>
             if is_dec d then (let (ds, r) = digits_tail cs' in (d # ds, r)) else ([], c # cs))
      else ([], c # cs))"

definition digitpart :: "string \<Rightarrow> string \<times> string" where
  "digitpart s =
     (case s of
        [] \<Rightarrow> ([], [])
      | c # cs \<Rightarrow> if is_dec c then (let (ds, r) = digits_tail cs in (c # ds, r)) else ([], s))"

definition take_sign :: "string \<Rightarrow> bool \<times> string" where
  "take_sign s =
     (case s of
        [] \<Rightarrow> (False, [])
      | c # cs \<Rightarrow> if c = CHR ''-'' then (True, cs) else if c = CHR ''+'' then (False, cs) else (False, s))"

text \<open>The exponent part: absent, or \<^verbatim>\<open>e\<close> with an optional sign and at least one digit.\<close>

definition exponent :: "string \<Rightarrow> int option" where
  "exponent s =
     (case s of
        [] \<Rightarrow> Some 0
      | c # cs \<Rightarrow>
          if lower c = CHR ''e'' then
            (let (neg, r) = take_sign cs; (ds, r') = digitpart r
             in if ds = [] \<or> r' \<noteq> [] then None
                else Some (if neg then - int (nat_of_digits ds) else int (nat_of_digits ds)))
          else None)"

text \<open>The unsigned number: digits, an optional point and digits, an optional exponent.\<close>

definition number :: "string \<Rightarrow> rat option" where
  "number s =
     (let (ip, r) = digitpart s;
          (fp, r') = (case r of
                        [] \<Rightarrow> ([], [])
                      | c # cs \<Rightarrow> if c = CHR ''.'' then digitpart cs else ([], r))
      in if ip = [] \<and> fp = [] then None
         else (case exponent r' of
                 None \<Rightarrow> None
               | Some e \<Rightarrow> Some (scale10 (of_nat (nat_of_digits (ip @ fp))) (e - int (length fp)))))"

definition parse_float :: "string \<Rightarrow> pyfloat option" where
  "parse_float s =
     (let (neg, r) = take_sign (strip s); w = map lower r
      in if w = ''inf'' \<or> w = ''infinity'' then Some (if neg then NInf else PInf)
         else if w = ''nan'' then Some NaN
         else (case number r of
                 None \<Rightarrow> None
               | Some q \<Rightarrow> Some (float_of_rat (if neg then - q else q))))"

fun py_float :: "pyval \<Rightarrow> exn + pyfloat" where
  "py_float PNone = Inl TypeError"
| "py_float (PBool b) = Inr (Fin (if b then 1 else 0))"
| "py_float (PInt n) =
     (if float_limit \<le> \<bar>of_int n\<bar> then Inl OverflowError else Inr (Fin (round64 (of_int n))))"
| "py_float (PFloat f) = Inr f"
| "py_float (PStr s) = (case parse_float s of None \<Rightarrow> Inl ValueError | Some f \<Rightarrow> Inr f)"
| "py_float (PList xs) = Inl TypeError"
| "py_float (PDict d) = Inl TypeError"

subsection \<open>\<^verbatim>\<open>isdigit\<close>, \<^verbatim>\<open>replace\<close>, \<^verbatim>\<open>isinstance\<close> and \<^verbatim>\<open>in\<close>\<close>

text \<open>
  \<^verbatim>\<open>str.isdigit\<close> holds of a non-empty string of digit characters; below 256 these
  are \<^verbatim>\<open>0\<close> to \<^verbatim>\<open>9\<close> and the superscripts two, three and one.
\<close>

definition is_digit_char :: "char \<Rightarrow> bool" where
  "is_digit_char c = (is_dec c \<or> (of_char c :: nat) \<in> {178, 179, 185})"

definition isdigit :: "string \<Rightarrow> bool" where
  "isdigit s = (s \<noteq> [] \<and> list_all is_digit_char s)"

definition replace_dot :: "string \<Rightarrow> string" where
  "replace_dot s = filter (\<lambda>c. c \<noteq> CHR ''.'') s"

fun is_int_float_str :: "pyval \<Rightarrow> bool" where
  "is_int_float_str (PBool b) = True"
| "is_int_float_str (PInt n) = True"
| "is_int_float_str (PFloat f) = True"
| "is_int_float_str (PStr s) = True"
| "is_int_float_str _ = False"

fun starts_with :: "string \<Rightarrow> string \<Rightarrow> bool" where
  "starts_with s [] = True"
| "starts_with [] (c # p) = False"
| "starts_with (a # s) (c # p) = (a = c \<and> starts_with s p)"

fun contains :: "string \<Rightarrow> string \<Rightarrow> bool" where
  "contains [] p = (p = [])"
| "contains (a # s) p = (starts_with (a # s) p \<or> contains s p)"

text \<open>
  \<^verbatim>\<open>x in c\<close>: membership by \<^verbatim>\<open>==\<close> in a list, substring in a string, key in a
  dictionary (whose keys are strings; a list or a dictionary cannot be hashed);
  anything else is not iterable.
\<close>

fun py_in :: "pyval \<Rightarrow> pyval \<Rightarrow> exn + bool" where
  "py_in x (PList ys) = Inr (list_ex (py_eq x) ys)"
| "py_in x (PStr t) = (case x of PStr s \<Rightarrow> Inr (contains t s) | _ \<Rightarrow> Inl TypeError)"
| "py_in x (PDict d) =
     (case x of
        PList xs \<Rightarrow> Inl TypeError
      | PDict e \<Rightarrow> Inl TypeError
      | PStr s \<Rightarrow> Inr (s \<in> set (map fst d))
      | _ \<Rightarrow> Inr False)"
| "py_in x _ = Inl TypeError"

section \<open>Artifact One: the record store over a local list\<close>

text \<open>
  \<^verbatim>\<open>self.data\<close> is the list of records. An operation that replaces or mutates it
  returns the new list together with its result.
\<close>

subsection \<open>\<^verbatim>\<open>_filtered_data\<close> and \<^verbatim>\<open>read\<close>\<close>

text \<open>
  The record's side of a \<^verbatim>\<open>$gte\<close> or \<^verbatim>\<open>$lte\<close> comparison:
  \<^verbatim>\<open>float(item[key]) if isinstance(item[key], (int, float, str)) and
  str(item[key]).replace('.', '').isdigit() else 0\<close>.
\<close>

definition digit_guard :: "pyval \<Rightarrow> bool" where
  "digit_guard iv = (is_int_float_str iv \<and> isdigit (replace_dot (py_str iv)))"

definition item_val :: "pyval \<Rightarrow> exn + pyfloat" where
  "item_val iv = (if digit_guard iv then py_float iv else Inr (Fin 0))"

text \<open>
  One pass of the body of the loop over the operators of a clause. \<open>Inr True\<close>: the
  loop goes on, \<^verbatim>\<open>match\<close> untouched; \<open>Inr False\<close>: \<^verbatim>\<open>match = False\<close> and
  \<^verbatim>\<open>break\<close>; \<open>Inl e\<close>: the exception \<open>e\<close> leaves the function. The handler
  \<^verbatim>\<open>except (ValueError, TypeError)\<close> is \<open>except_coercion\<close>.
\<close>

definition except_coercion :: "exn + bool \<Rightarrow> exn + bool" where
  "except_coercion r =
     (case r of
        Inl e \<Rightarrow> if e = ValueError \<or> e = TypeError then Inr False else Inl e
      | Inr b \<Rightarrow> Inr b)"

definition compare_step :: "(pyfloat \<Rightarrow> pyfloat \<Rightarrow> bool) \<Rightarrow> pyval \<Rightarrow> pyval \<Rightarrow> exn + bool" where
  "compare_step fails iv op_value =
     except_coercion
       (case item_val iv of
          Inl e \<Rightarrow> Inl e
        | Inr x \<Rightarrow>
            (case py_float op_value of
               Inl e \<Rightarrow> Inl e
             | Inr b \<Rightarrow> Inr (\<not> fails x b)))"

definition op_step :: "pyval \<Rightarrow> string \<Rightarrow> pyval \<Rightarrow> exn + bool" where
  "op_step iv op op_value =
     (if op = ''$in'' then
        py_in iv op_value
      else if op = ''$gte'' then compare_step float_lt iv op_value
      else if op = ''$lte'' then compare_step float_gt iv op_value
      else (if py_str iv \<noteq> py_str op_value then Inr False else Inr True))"

fun ops_loop :: "pyval \<Rightarrow> pydict \<Rightarrow> exn + bool" where
  "ops_loop iv [] = Inr True"
| "ops_loop iv ((op, op_value) # ops) =
     (case op_step iv op op_value of
        Inl e \<Rightarrow> Inl e
      | Inr ok \<Rightarrow> if ok then ops_loop iv ops else Inr False)"

text \<open>
  The loop over the clauses of the query, with the variable \<^verbatim>\<open>match\<close> as its state.
  A \<^verbatim>\<open>break\<close> in the loop over the operators leaves that loop only: the clauses
  that follow are still visited, with \<^verbatim>\<open>match\<close> already false.
\<close>

fun clauses_loop :: "pydict \<Rightarrow> bool \<Rightarrow> pydict \<Rightarrow> exn + bool" where
  "clauses_loop item match [] = Inr match"
| "clauses_loop item match ((key, val) # query) =
     (case map_of item key of
        None \<Rightarrow> Inr False
      | Some iv \<Rightarrow>
          (case val of
             PDict ops \<Rightarrow>
               (case ops_loop iv ops of
                  Inl e \<Rightarrow> Inl e
                | Inr ok \<Rightarrow> clauses_loop item (match \<and> ok) query)
           | _ \<Rightarrow>
               if py_str iv \<noteq> py_str val then Inr False
               else clauses_loop item match query))"

fun items_loop :: "pydict \<Rightarrow> pydict list \<Rightarrow> pydict list \<Rightarrow> exn + pydict list" where
  "items_loop query [] filtered = Inr filtered"
| "items_loop query (item # data) filtered =
     (case clauses_loop item True query of
        Inl e \<Rightarrow> Inl e
      | Inr match \<Rightarrow> items_loop query data (if match then filtered @ [item] else filtered))"

definition filtered_data :: "pydict list \<Rightarrow> pydict \<Rightarrow> exn + pydict list" where
  "filtered_data data query = items_loop query data []"

text \<open>
  \<^verbatim>\<open>read\<close> raises on a query that is not a dictionary; any exception of the filter
  is caught and answered with the empty list.
\<close>

definition read :: "pydict list \<Rightarrow> pyval \<Rightarrow> exn + pydict list" where
  "read data query =
     (case query of
        PDict q \<Rightarrow>
          (case filtered_data data q of
             Inl e \<Rightarrow> Inr []
           | Inr filtered \<Rightarrow> Inr filtered)
      | _ \<Rightarrow> Inl Exception)"

text \<open>
  What the filter is compared with: a clause holds of a record when the field is there
  and every operator of the clause is satisfied (or, for a plain value, when it has the
  string of the field's value).
\<close>

definition clause_holds :: "pydict \<Rightarrow> string \<times> pyval \<Rightarrow> bool" where
  "clause_holds item clause =
     (case map_of item (fst clause) of
        None \<Rightarrow> False
      | Some iv \<Rightarrow>
          (case snd clause of
             PDict ops \<Rightarrow> list_all (\<lambda>(op, v). op_step iv op v = Inr True) ops
           | val \<Rightarrow> py_str iv = py_str val))"

subsection \<open>\<^verbatim>\<open>update\<close>, \<^verbatim>\<open>_item_matches_query\<close> and \<^verbatim>\<open>delete\<close>\<close>

fun item_matches_query :: "pydict \<Rightarrow> pydict \<Rightarrow> bool" where
  "item_matches_query item [] = True"
| "item_matches_query item ((key, val) # query) =
     (case map_of item key of
        None \<Rightarrow> False
      | Some iv \<Rightarrow> if py_ne iv val then False else item_matches_query item query)"

text \<open>
  \<^verbatim>\<open>item[k] = v\<close> keeps the place of a key that is there and appends a new one;
  \<^verbatim>\<open>item.update(update_data)\<close> does so for every entry of the patch, in order.
\<close>

fun set_item :: "string \<Rightarrow> pyval \<Rightarrow> pydict \<Rightarrow> pydict" where
  "set_item k v [] = [(k, v)]"
| "set_item k v ((k', v') # d) = (if k' = k then (k, v) # d else (k', v') # set_item k v d)"

fun dict_update :: "pydict \<Rightarrow> pydict \<Rightarrow> pydict" where
  "dict_update item [] = item"
| "dict_update item ((k, v) # update_data) = dict_update (set_item k v item) update_data"

text \<open>
  The loop of \<^verbatim>\<open>update\<close> over \<^verbatim>\<open>self.data\<close>: \<open>seen\<close> holds the records already
  visited (patched or not), \<open>updated_count\<close> the counter. The records of the list are
  taken to be distinct objects, so that patching one leaves the others as they are.
\<close>

fun update_loop :: "pydict \<Rightarrow> pydict \<Rightarrow> bool \<Rightarrow> pydict list \<Rightarrow> pydict list \<Rightarrow> nat \<Rightarrow> pydict list \<times> nat" where
  "update_loop query update_data multiple [] seen updated_count = (seen, updated_count)"
| "update_loop query update_data multiple (item # data) seen updated_count =
     (if item_matches_query item query
      then (if \<not> multiple
            then (seen @ [dict_update item update_data] @ data, updated_count + 1)
            else update_loop query update_data multiple data
                   (seen @ [dict_update item update_data]) (updated_count + 1))
      else update_loop query update_data multiple data (seen @ [item]) updated_count)"

definition update :: "pydict list \<Rightarrow> pyval \<Rightarrow> pyval \<Rightarrow> bool \<Rightarrow> exn + (pydict list \<times> nat)" where
  "update data query update_data multiple =
     (case query of
        PDict q \<Rightarrow>
          (case update_data of
             PDict u \<Rightarrow> Inr (update_loop q u multiple data [] 0)
           | _ \<Rightarrow> Inl ValueError)
      | _ \<Rightarrow> Inl ValueError)"

text \<open>
  The loop of \<^verbatim>\<open>delete\<close>: \<open>items_to_keep\<close> and \<open>deleted_count\<close> are the accumulators.
  Both branches of the test on \<^verbatim>\<open>multiple\<close> are \<^verbatim>\<open>continue\<close>.
\<close>

fun delete_loop :: "pydict \<Rightarrow> bool \<Rightarrow> pydict list \<Rightarrow> pydict list \<Rightarrow> nat \<Rightarrow> pydict list \<times> nat" where
  "delete_loop query multiple [] items_to_keep deleted_count = (items_to_keep, deleted_count)"
| "delete_loop query multiple (item # data) items_to_keep deleted_count =
     (if item_matches_query item query
      then (if \<not> multiple
            then delete_loop query multiple data items_to_keep (deleted_count + 1)
            else delete_loop query multiple data items_to_keep (deleted_count + 1))
      else delete_loop query multiple data (items_to_keep @ [item]) deleted_count)"

definition delete :: "pydict list \<Rightarrow> pyval \<Rightarrow> bool \<Rightarrow> exn + (pydict list \<times> nat)" where
  "delete data query multiple =
     (case query of
        PDict q \<Rightarrow> Inr (delete_loop q multiple data [] 0)
      | _ \<Rightarrow> Inl ValueError)"

subsection \<open>The rescue counters of the report\<close>

text \<open>\<^verbatim>\<open>item.get(k)\<close> is \<^verbatim>\<open>None\<close> for a key that is not there.\<close>

definition dict_get :: "pydict \<Rightarrow> string \<Rightarrow> pyval" where
  "dict_get item k = (case map_of item k of None \<Rightarrow> PNone | Some v \<Rightarrow> v)"

definition in_list :: "pyval \<Rightarrow> string list \<Rightarrow> bool" where
  "in_list x names = list_ex (\<lambda>n. py_eq x (PStr n)) names"

text \<open>
  The three counters are one loop body with different constants: the breeds, the sex and
  the bounds of the age. \<open>Inr True\<close>: the record is counted; \<open>Inr False\<close>: it is
  not; \<open>Inl e\<close>: the exception \<open>e\<close> leaves the counter.
\<close>

definition rescue_step :: "string list \<Rightarrow> string \<Rightarrow> rat \<Rightarrow> rat \<Rightarrow> pydict \<Rightarrow> exn + bool" where
  "rescue_step breeds sex lo hi item =
     (if py_eq (dict_get item ''animal_type'') (PStr ''Dog'') \<and>
         in_list (dict_get item ''breed'') breeds \<and>
         py_eq (dict_get item ''sex_upon_outcome'') (PStr sex)
      then (let age = dict_get item ''age_upon_outcome_in_weeks''
            in if age \<noteq> PNone
               then (case py_float age of
                       Inl e \<Rightarrow> if e = ValueError \<or> e = TypeError then Inr False else Inl e
                     | Inr age_weeks \<Rightarrow>
                         Inr (float_le (Fin lo) age_weeks \<and> float_le age_weeks (Fin hi)))
               else Inr True)
      else Inr False)"

fun count_loop :: "(pydict \<Rightarrow> exn + bool) \<Rightarrow> pydict list \<Rightarrow> nat \<Rightarrow> exn + nat" where
  "count_loop step [] count = Inr count"
| "count_loop step (item # data) count =
     (case step item of
        Inl e \<Rightarrow> Inl e
      | Inr counted \<Rightarrow> count_loop step data (if counted then count + 1 else count))"

definition water_breeds :: "string list" where
  "water_breeds = [''Labrador Retriever Mix'', ''Chesapeake Bay Retriever'', ''Newfoundland'']"



definition count_water_rescue_dogs :: "pydict list \<Rightarrow> exn + nat" where
  "count_water_rescue_dogs data =
     count_loop (rescue_step water_breeds ''Intact Female'' 26 156) data 0"



text \<open>
  What the counters are compared with, in the words of the specification: a dog of one
  of the breeds, of the required sex, whose age is either not given or a number of weeks
  inside the window.
\<close>

definition rescue_candidate :: "string list \<Rightarrow> string \<Rightarrow> pydict \<Rightarrow> bool" where
  "rescue_candidate breeds sex item =
     (dict_get item ''animal_type'' = PStr ''Dog''
      \<and> dict_get item ''breed'' \<in> PStr ` set breeds
      \<and> dict_get item ''sex_upon_outcome'' = PStr sex)"

definition age_in_window :: "rat \<Rightarrow> rat \<Rightarrow> pyval \<Rightarrow> bool" where
  "age_in_window lo hi age =
     (age = PNone
      \<or> (case py_float age of Inr (Fin weeks) \<Rightarrow> lo \<le> weeks \<and> weeks \<le> hi | _ \<Rightarrow> False))"

definition water_rescue_eligible :: "pydict \<Rightarrow> bool" where
  "water_rescue_eligible item =
     (rescue_candidate
        [''Labrador Retriever Mix'', ''Chesapeake Bay Retriever'', ''Newfoundland'']
        ''Intact Female'' item
      \<and> age_in_window 26 156 (dict_get item ''age_upon_outcome_in_weeks''))"

text \<open>An age that \<^verbatim>\<open>float\<close> cannot hold: an \<^verbatim>\<open>int\<close> beyond the range of binary64.\<close>

definition age_overflows :: "pydict \<Rightarrow> bool" where
  "age_overflows item =
     (py_float (dict_get item ''age_upon_outcome_in_weeks'') = Inl OverflowError)"

section \<open>Artifact Three: the store over MongoDB, with a demo mode\<close>

text \<open>
  Of the object only the flag \<^verbatim>\<open>connection_successful\<close> decides what the operations
  below return; it is set by the constructor and never changed afterwards. What the
  database answers is a parameter of each operation: \<open>db_find\<close> for
  \<^verbatim>\<open>list(self.collection.find(query, {"_id": False}))\<close>, \<open>live\<close> for the body of
  the \<^verbatim>\<open>try\<close> block of an aggregation (the pipeline it sends, of which
  \<^verbatim>\<open>months\<close> is a part, and what it makes of the answer). The audit log is
  written on the side, never fails the operation, and is left out.
\<close>

record shelter =
  connection_successful :: bool
  auth_enabled :: bool

definition mock_data :: "pydict list" where
  "mock_data =
     [[(''animal_id'', PStr ''A001''), (''animal_type'', PStr ''Dog''),
       (''breed'', PStr ''Labrador Retriever Mix''), (''age_upon_outcome_in_weeks'', PInt 52),
       (''outcome_type'', PStr ''Adoption''), (''sex_upon_outcome'', PStr ''Intact Female''),
       (''name'', PStr ''Buddy''), (''location_lat'', float_lit (3075 / 100)),
       (''location_long'', float_lit (- (9748 / 100)))],
      [(''animal_id'', PStr ''A002''), (''animal_type'', PStr ''Dog''),
       (''breed'', PStr ''Chesapeake Bay Retriever''), (''age_upon_outcome_in_weeks'', PInt 60),
       (''outcome_type'', PStr ''Adoption''), (''sex_upon_outcome'', PStr ''Intact Female''),
       (''name'', PStr ''Sadie''), (''location_lat'', float_lit (3076 / 100)),
       (''location_long'', float_lit (- (9749 / 100)))],
      [(''animal_id'', PStr ''A003''), (''animal_type'', PStr ''Dog''),
       (''breed'', PStr ''Newfoundland''), (''age_upon_outcome_in_weeks'', PInt 80),
       (''outcome_type'', PStr ''Transfer''), (''sex_upon_outcome'', PStr ''Intact Female''),
       (''name'', PStr ''Molly''), (''location_lat'', float_lit (3074 / 100)),
       (''location_long'', float_lit (- (9747 / 100)))],
      [(''animal_id'', PStr ''A004''), (''animal_type'', PStr ''Dog''),
       (''breed'', PStr ''German Shepherd''), (''age_upon_outcome_in_weeks'', PInt 48),
       (''outcome_type'', PStr ''Adoption''), (''sex_upon_outcome'', PStr ''Intact Male''),
       (''name'', PStr ''Max''), (''location_lat'', float_lit (3077 / 100)),
       (''location_long'', float_lit (- (9750 / 100)))],
      [(''animal_id'', PStr ''A005''), (''animal_type'', PStr ''Dog''),
       (''breed'', PStr ''Alaskan Malamute''), (''age_upon_outcome_in_weeks'', PInt 55),
       (''outcome_type'', PStr ''Adoption''), (''sex_upon_outcome'', PStr ''Intact Male''),
       (''name'', PStr ''Duke''), (''location_lat'', float_lit (3073 / 100)),
       (''location_long'', float_lit (- (9746 / 100)))],
      [(''animal_id'', PStr ''A006''), (''animal_type'', PStr ''Cat''),
       (''breed'', PStr ''Siamese''), (''age_upon_outcome_in_weeks'', PInt 26),
       (''outcome_type'', PStr ''Transfer''), (''sex_upon_outcome'', PStr ''Spayed Female''),
       (''name'', PStr ''Whiskers''), (''location_lat'', float_lit (3078 / 100)),
       (''location_long'', float_lit (- (9751 / 100)))],
      [(''animal_id'', PStr ''A007''), (''animal_type'', PStr ''Dog''),
       (''breed'', PStr ''Golden Retriever''), (''age_upon_outcome_in_weeks'', PInt 45),
       (''outcome_type'', PStr ''Return to Owner''), (''sex_upon_outcome'', PStr ''Neutered Male''),
       (''name'', PStr ''Charlie''), (''location_lat'', float_lit (3072 / 100)),
       (''location_long'', float_lit (- (9745 / 100)))]]"

definition read_without_auth :: "shelter \<Rightarrow> (pyval \<Rightarrow> exn + pydict list) \<Rightarrow> pyval \<Rightarrow> pydict list" where
  "read_without_auth self db_find query =
     (if \<not> connection_successful self then mock_data
      else (case (if query \<noteq> PNone then db_find query else Inl Exception) of
              Inl e \<Rightarrow> []
            | Inr data \<Rightarrow> data))"

definition read_mongo :: "shelter \<Rightarrow> (pyval \<Rightarrow> exn + pydict list) \<Rightarrow> pyval \<Rightarrow> string \<Rightarrow> pydict list" where
  "read_mongo self db_find query username =
     (if \<not> connection_successful self then read_without_auth self db_find query
      else (case (if query \<noteq> PNone then db_find query else Inl Exception) of
              Inl e \<Rightarrow> []
            | Inr data \<Rightarrow> data))"

text \<open>A database that cannot be reached: every request raises.\<close>

definition find_unreachable :: "pyval \<Rightarrow> exn + pydict list" where
  "find_unreachable query = Inl Exception"

definition aggregate_unreachable :: "pyval \<Rightarrow> exn + pyval" where
  "aggregate_unreachable months = Inl Exception"

definition get_mock_breed_performance :: pyval where
  "get_mock_breed_performance =
     PList
     [PDict [(''breed'', PStr ''Labrador Retriever Mix''), (''total_animals'', PInt 45), (''adoption_count'', PInt 38),
             (''adoption_rate'', float_lit (844 / 10)), (''success_rate'', float_lit (911 / 10))],
      PDict [(''breed'', PStr ''German Shepherd''), (''total_animals'', PInt 32), (''adoption_count'', PInt 25),
             (''adoption_rate'', float_lit (781 / 10)), (''success_rate'', float_lit (875 / 10))],
      PDict [(''breed'', PStr ''Golden Retriever''), (''total_animals'', PInt 28), (''adoption_count'', PInt 24),
             (''adoption_rate'', float_lit (857 / 10)), (''success_rate'', float_lit (928 / 10))],
      PDict [(''breed'', PStr ''Bulldog''), (''total_animals'', PInt 22), (''adoption_count'', PInt 16),
             (''adoption_rate'', float_lit (727 / 10)), (''success_rate'', float_lit (818 / 10))],
      PDict [(''breed'', PStr ''Beagle''), (''total_animals'', PInt 35), (''adoption_count'', PInt 28),
             (''adoption_rate'', float_lit (800 / 10)), (''success_rate'', float_lit (886 / 10))]]"

definition get_mock_rescue_analytics :: pyval where
  "get_mock_rescue_analytics =
     PDict
       [(''water_rescue'',
          PDict [(''total'', PInt 25),
             (''breakdown'',
              PList [PDict [(''_id'', PStr ''Labrador Retriever Mix''), (''count'', PInt 12), (''avg_age_weeks'', float_lit (452 / 10))],
                 PDict [(''_id'', PStr ''Chesapeake Bay Retriever''), (''count'', PInt 8), (''avg_age_weeks'', float_lit (527 / 10))],
                 PDict [(''_id'', PStr ''Newfoundland''), (''count'', PInt 5), (''avg_age_weeks'', float_lit (613 / 10))]])]),
        (''wilderness_rescue'',
          PDict [(''total'', PInt 18),
             (''breakdown'',
              PList [PDict [(''_id'', PStr ''German Shepherd''), (''count'', PInt 6), (''avg_age_weeks'', float_lit (485 / 10))],
                 PDict [(''_id'', PStr ''Alaskan Malamute''), (''count'', PInt 5), (''avg_age_weeks'', float_lit (552 / 10))],
                 PDict [(''_id'', PStr ''Siberian Husky''), (''count'', PInt 4), (''avg_age_weeks'', float_lit (428 / 10))],
                 PDict [(''_id'', PStr ''Rottweiler''), (''count'', PInt 3), (''avg_age_weeks'', float_lit (501 / 10))]])]),
        (''disaster_rescue'',
          PDict [(''total'', PInt 32),
             (''breakdown'',
              PList [PDict [(''_id'', PStr ''Doberman Pinscher''), (''count'', PInt 8), (''avg_age_weeks'', float_lit (473 / 10))],
                 PDict [(''_id'', PStr ''German Shepherd''), (''count'', PInt 7), (''avg_age_weeks'', float_lit (492 / 10))],
                 PDict [(''_id'', PStr ''Golden Retriever''), (''count'', PInt 9), (''avg_age_weeks'', float_lit (437 / 10))],
                 PDict [(''_id'', PStr ''Bloodhound''), (''count'', PInt 5), (''avg_age_weeks'', float_lit (584 / 10))],
                 PDict [(''_id'', PStr ''Rottweiler''), (''count'', PInt 3), (''avg_age_weeks'', float_lit (516 / 10))]])])]"

definition get_mock_adoption_trends :: pyval where
  "get_mock_adoption_trends =
     PList
     [PDict [(''year'', PInt 2024), (''month'', PInt 10), (''adoption_count'', PInt 62),
             (''dog_adoptions'', PInt 38), (''cat_adoptions'', PInt 22)],
      PDict [(''year'', PInt 2024), (''month'', PInt 9), (''adoption_count'', PInt 58),
             (''dog_adoptions'', PInt 36), (''cat_adoptions'', PInt 20)],
      PDict [(''year'', PInt 2024), (''month'', PInt 8), (''adoption_count'', PInt 65),
             (''dog_adoptions'', PInt 40), (''cat_adoptions'', PInt 23)],
      PDict [(''year'', PInt 2024), (''month'', PInt 7), (''adoption_count'', PInt 60),
             (''dog_adoptions'', PInt 38), (''cat_adoptions'', PInt 20)],
      PDict [(''year'', PInt 2024), (''month'', PInt 6), (''adoption_count'', PInt 58),
             (''dog_adoptions'', PInt 36), (''cat_adoptions'', PInt 20)],
      PDict [(''year'', PInt 2024), (''month'', PInt 5), (''adoption_count'', PInt 60),
             (''dog_adoptions'', PInt 38), (''cat_adoptions'', PInt 20)]]"

definition get_mock_demographics :: pyval where
  "get_mock_demographics =
     PList
     [PDict [(''animal_type'', PStr ''Dog''), (''total_count'', PInt 65), (''avg_age_weeks'', float_lit (452 / 10))],
      PDict [(''animal_type'', PStr ''Cat''), (''total_count'', PInt 35), (''avg_age_weeks'', float_lit (327 / 10))],
      PDict [(''animal_type'', PStr ''Bird''), (''total_count'', PInt 12), (''avg_age_weeks'', float_lit (283 / 10))],
      PDict [(''animal_type'', PStr ''Other''), (''total_count'', PInt 8), (''avg_age_weeks'', float_lit (365 / 10))]]"

definition get_breed_performance_metrics :: "shelter \<Rightarrow> exn + pyval \<Rightarrow> pyval" where
  "get_breed_performance_metrics self live =
     (if \<not> connection_successful self then get_mock_breed_performance
      else (case live of Inl e \<Rightarrow> get_mock_breed_performance | Inr result \<Rightarrow> result))"

definition get_rescue_type_analytics :: "shelter \<Rightarrow> exn + pyval \<Rightarrow> pyval" where
  "get_rescue_type_analytics self live =
     (if \<not> connection_successful self then get_mock_rescue_analytics
      else (case live of Inl e \<Rightarrow> get_mock_rescue_analytics | Inr result \<Rightarrow> result))"

definition get_monthly_adoption_trends :: "shelter \<Rightarrow> (pyval \<Rightarrow> exn + pyval) \<Rightarrow> pyval \<Rightarrow> pyval" where
  "get_monthly_adoption_trends self live months =
     (if \<not> connection_successful self then get_mock_adoption_trends
      else (case live months of Inl e \<Rightarrow> get_mock_adoption_trends | Inr result \<Rightarrow> result))"

definition get_animal_demographics :: "shelter \<Rightarrow> exn + pyval \<Rightarrow> pyval" where
  "get_animal_demographics self live =
     (if \<not> connection_successful self then get_mock_demographics
      else (case live of Inl e \<Rightarrow> get_mock_demographics | Inr result \<Rightarrow> result))"

section \<open>Properties of the record store\<close>

text \<open>The definitions that the evaluation of a concrete query unfolds.\<close>

lemmas str_defs =
  py_str_def str_int_def str_nat.simps digit_char_def replace_dot_def isdigit_def
  is_digit_char_def is_dec_def digit_guard_def

lemma floor_rat_numeral [simp]:
  "\<lfloor>numeral a / numeral b :: rat\<rfloor> = numeral a div numeral b"
  by (metis floor_divide_of_int_eq of_int_numeral)

lemma floor_rat_neg_numeral [simp]:
  "\<lfloor>- (numeral a / numeral b) :: rat\<rfloor> = - numeral a div numeral b"
  by (metis divide_minus_left floor_divide_of_int_eq of_int_neg_numeral of_int_numeral)

lemma floor_rat_one_numeral [simp]:
  "\<lfloor>1 / numeral b :: rat\<rfloor> = 1 div numeral b"
  by (metis floor_divide_of_int_eq of_int_1 of_int_numeral)

lemma ceiling_rat_numeral [simp]:
  "\<lceil>numeral a / numeral b :: rat\<rceil> = - (- numeral a div numeral b)"
  by (simp add: ceiling_def)

lemma ceiling_rat_one_numeral [simp]:
  "\<lceil>1 / numeral b :: rat\<rceil> = - (- 1 div numeral b)"
  by (metis ceiling_def divide_minus_left floor_divide_of_int_eq of_int_1 of_int_minus
      of_int_numeral)

lemmas round_defs =
  round64_def ulp_exp_def round_at_def ilog_def round_even_def scale2_def scale10_def
  compute_floorlog

lemmas float_defs =
  float_limit_def float_of_rat_def float_lit_def round_defs parse_float_def strip_def
  is_space_def take_sign_def lower_def number_def digitpart_def exponent_def nat_of_digits_def
  dec_val_def float_gt_def float_le_def

lemmas repr_defs =
  str_pos_float_def format_repr_def format_digits_def shortest.simps repr_try_def repr_pick_def
  roundtrips_def sci_def pad2_def strip_zeros_def

lemmas filter_defs =
  read_def filtered_data_def op_step_def compare_step_def item_val_def except_coercion_def

subsection \<open>\<^verbatim>\<open>delete\<close>\<close>

lemma delete_loop_eq:
  "delete_loop q multiple data keep n =
     (keep @ filter (\<lambda>item. \<not> item_matches_query item q) data,
      n + length (filter (\<lambda>item. item_matches_query item q) data))"
  by (induction data arbitrary: keep n) auto

lemma delete_eq:
  "delete data (PDict q) multiple =
     Inr (filter (\<lambda>item. \<not> item_matches_query item q) data,
          length (filter (\<lambda>item. item_matches_query item q) data))"
  by (simp add: delete_def delete_loop_eq)

lemma delete_ignores_multiple: "delete data query False = delete data query True"
  by (cases query) (simp_all add: delete_def delete_loop_eq)

lemma delete_size:
  assumes "delete data query multiple = Inr (kept, n)"
  shows "length kept + n = length data"
proof -
  from assms obtain q where q: "query = PDict q"
    by (cases query) (simp_all add: delete_def)
  have "length (filter (\<lambda>item. \<not> item_matches_query item q) data)
        + length (filter (\<lambda>item. item_matches_query item q) data) = length data"
    using sum_length_filter_compl [of "\<lambda>item. item_matches_query item q" data] by simp
  with assms q show ?thesis
    by (simp add: delete_eq)
qed

text \<open>
  C1. The claim: \<^verbatim>\<open>delete(query, multiple=False)\<close> removes the first record that
  matches the query and only that one, returns 1 when there is a match, and the store
  shrinks by the count returned. On a store of two dogs around a cat, the call with the
  query for dogs removes both dogs and returns 2: the branch for \<^verbatim>\<open>not multiple\<close>
  does what the branch for \<^verbatim>\<open>multiple\<close> does.
\<close>

theorem delete_single_removes_every_match:
  "delete [[(''animal_id'', PStr ''A1''), (''animal_type'', PStr ''Dog'')],
           [(''animal_id'', PStr ''A2''), (''animal_type'', PStr ''Cat'')],
           [(''animal_id'', PStr ''A3''), (''animal_type'', PStr ''Dog'')]]
          (PDict [(''animal_type'', PStr ''Dog'')]) False
   = Inr ([[(''animal_id'', PStr ''A2''), (''animal_type'', PStr ''Cat'')]], 2)"
  by (simp add: delete_def py_ne_def)

subsection \<open>\<^verbatim>\<open>update\<close>\<close>

lemma update_loop_many:
  "update_loop q u True data seen n =
     (seen @ map (\<lambda>item. if item_matches_query item q then dict_update item u else item) data,
      n + length (filter (\<lambda>item. item_matches_query item q) data))"
  by (induction data arbitrary: seen n) auto

lemma update_loop_one:
  "update_loop q u False data seen n =
     (case dropWhile (\<lambda>item. \<not> item_matches_query item q) data of
        [] \<Rightarrow> (seen @ data, n)
      | item # rest \<Rightarrow>
          (seen @ takeWhile (\<lambda>item. \<not> item_matches_query item q) data
             @ dict_update item u # rest, n + 1))"
  by (induction data arbitrary: seen n) (auto cong: list.case_cong)

lemma update_eq:
  "update data (PDict q) (PDict u) False =
     Inr (case dropWhile (\<lambda>item. \<not> item_matches_query item q) data of
            [] \<Rightarrow> (data, 0)
          | item # rest \<Rightarrow>
              (takeWhile (\<lambda>item. \<not> item_matches_query item q) data
                 @ dict_update item u # rest, 1))
   \<and> update data (PDict q) (PDict u) True =
     Inr (map (\<lambda>item. if item_matches_query item q then dict_update item u else item) data,
          length (filter (\<lambda>item. item_matches_query item q) data))"
  by (simp add: update_def update_loop_one update_loop_many cong: list.case_cong)

text \<open>
  C7. The claim: \<^verbatim>\<open>update\<close> with \<^verbatim>\<open>multiple=False\<close> modifies at most the first
  match, with \<^verbatim>\<open>multiple=True\<close> all matches, and the count returned is the number of
  records whose contents changed. On a store with the one record \<^verbatim>\<open>A1\<close> named
  \<^verbatim>\<open>Rex\<close>, the patch \<^verbatim>\<open>{'name': 'Rex'}\<close> leaves the store as it was, and
  \<^verbatim>\<open>update\<close> returns 1: the counter is incremented for every record the patch is
  applied to, whether or not the patch changes it.
\<close>

theorem update_counts_unchanged_record:
  "update [[(''animal_id'', PStr ''A1''), (''name'', PStr ''Rex'')]]
          (PDict [(''animal_id'', PStr ''A1'')]) (PDict [(''name'', PStr ''Rex'')]) False
   = Inr ([[(''animal_id'', PStr ''A1''), (''name'', PStr ''Rex'')]], 1)"
  by (simp add: update_def py_ne_def)

subsection \<open>The filter of \<^verbatim>\<open>read\<close>\<close>

lemma ops_loop_all:
  "ops_loop iv ops = Inr True \<longleftrightarrow> list_all (\<lambda>(op, v). op_step iv op v = Inr True) ops"
  by (induction ops) (auto split: sum.splits if_splits)

lemma clauses_loop_False: "clauses_loop item False query \<noteq> Inr True"
  by (induction query) (auto split: option.splits pyval.splits sum.splits if_splits)

lemma clauses_loop_all:
  "clauses_loop item True query = Inr True \<longleftrightarrow> list_all (clause_holds item) query"
proof (induction query)
  case Nil
  show ?case by simp
next
  case (Cons clause query)
  obtain key val where clause: "clause = (key, val)"
    by (cases clause)
  show ?case
  proof (cases "map_of item key")
    case None
    then show ?thesis
      by (simp add: clause clause_holds_def)
  next
    case (Some iv)
    show ?thesis
    proof (cases "\<exists>ops. val = PDict ops")
      case True
      then obtain ops where val: "val = PDict ops" ..
      show ?thesis
      proof (cases "ops_loop iv ops")
        case (Inl e)
        with ops_loop_all [of iv ops] show ?thesis
          by (simp add: clause val Some clause_holds_def)
      next
        case (Inr ok)
        with ops_loop_all [of iv ops] Cons.IH clauses_loop_False [of item query] show ?thesis
          by (cases ok) (simp_all add: clause val Some clause_holds_def)
      qed
    next
      case False
      with Cons.IH show ?thesis
        by (cases val) (simp_all add: clause Some clause_holds_def)
    qed
  qed
qed

lemma items_loop_filter:
  "items_loop query data filtered = Inr out \<Longrightarrow>
   out = filtered @ filter (\<lambda>item. clauses_loop item True query = Inr True) data"
proof (induction data arbitrary: filtered)
  case Nil
  then show ?case by simp
next
  case (Cons item data)
  show ?case
  proof (cases "clauses_loop item True query")
    case (Inl e)
    with Cons.prems show ?thesis by simp
  next
    case (Inr match)
    with Cons.prems Cons.IH [of "if match then filtered @ [item] else filtered"] show ?thesis
      by (cases match) simp_all
  qed
qed

lemma read_total: "\<exists>out. read data (PDict q) = Inr out"
  by (simp add: read_def split: sum.splits)

lemma read_sound:
  assumes "read data (PDict q) = Inr out" and "item \<in> set out"
  shows "item \<in> set data \<and> list_all (clause_holds item) q"
proof (cases "filtered_data data q")
  case (Inl e)
  with assms show ?thesis
    by (simp add: read_def)
next
  case (Inr filtered)
  with assms have "items_loop q data [] = Inr out"
    by (simp add: read_def filtered_data_def)
  from items_loop_filter [OF this] assms(2) show ?thesis
    by (simp add: clauses_loop_all)
qed

subsection \<open>The comparisons \<^verbatim>\<open>$gte\<close> and \<^verbatim>\<open>$lte\<close>\<close>

lemma py_float_exn:
  "py_float v = Inl e \<Longrightarrow> e = ValueError \<or> e = TypeError \<or> e = OverflowError"
  by (cases v) (auto split: if_splits option.splits)

lemma item_val_exn: "item_val iv = Inl e \<Longrightarrow> e = ValueError \<or> e = OverflowError"
  by (cases iv) (auto simp: item_val_def digit_guard_def split: if_splits option.splits)

lemma compare_step_caught:
  "compare_step fails iv bound \<noteq> Inl ValueError \<and> compare_step fails iv bound \<noteq> Inl TypeError"
  by (auto simp: compare_step_def except_coercion_def split: sum.splits)

lemma compare_step_value_rejected:
  "digit_guard iv \<Longrightarrow> py_float iv = Inl ValueError \<Longrightarrow> compare_step fails iv bound = Inr False"
  by (simp add: compare_step_def except_coercion_def item_val_def)

lemma compare_step_bound_rejected:
  "item_val iv \<noteq> Inl OverflowError \<Longrightarrow>
   py_float bound = Inl ValueError \<or> py_float bound = Inl TypeError \<Longrightarrow>
   compare_step fails iv bound = Inr False"
  by (auto simp: compare_step_def except_coercion_def split: sum.splits dest: item_val_exn)

lemma compare_step_zero:
  "\<not> digit_guard iv \<Longrightarrow> py_float bound = Inr b \<Longrightarrow>
   compare_step fails iv bound = Inr (\<not> fails (Fin 0) b)"
  by (simp add: compare_step_def except_coercion_def item_val_def)

lemma compare_step_numeric:
  "digit_guard iv \<Longrightarrow> py_float iv = Inr x \<Longrightarrow> py_float bound = Inr b \<Longrightarrow>
   compare_step fails iv bound = Inr (\<not> fails x b)"
  by (simp add: compare_step_def except_coercion_def item_val_def)

lemma compare_step_True_bound:
  "compare_step fails iv bound = Inr True \<Longrightarrow> \<exists>b. py_float bound = Inr b"
  by (auto simp: compare_step_def except_coercion_def split: sum.splits if_splits)

lemma op_step_gte: "op_step iv ''$gte'' bound = compare_step float_lt iv bound"
  by (simp add: op_step_def)

lemma op_step_lte: "op_step iv ''$lte'' bound = compare_step float_gt iv bound"
  by (simp add: op_step_def)

text \<open>The decimal digits of a natural number pass the digit test; a minus sign does not.\<close>

lemma digit_char_dec: "d < 10 \<Longrightarrow> is_dec (digit_char d)"
proof -
  assume "d < 10"
  then have "d = 0 \<or> d = 1 \<or> d = 2 \<or> d = 3 \<or> d = 4 \<or> d = 5 \<or> d = 6 \<or> d = 7 \<or> d = 8 \<or> d = 9"
    by arith
  then show ?thesis
    by (auto simp: digit_char_def is_dec_def)
qed

lemma str_nat_digits: "str_nat n \<noteq> [] \<and> list_all is_dec (str_nat n)"
proof (induction n rule: str_nat.induct)
  case (1 n)
  show ?case
  proof (cases "n < 10")
    case True
    then show ?thesis
      by (subst (1 2) str_nat.simps) (simp add: digit_char_dec)
  next
    case False
    with "1" show ?thesis
      by (subst (1 2) str_nat.simps) (simp add: digit_char_dec)
  qed
qed

lemma is_dec_not_dot: "is_dec c \<Longrightarrow> c \<noteq> CHR ''.''"
  by (auto simp: is_dec_def)

lemma replace_dot_digits: "list_all is_dec s \<Longrightarrow> replace_dot s = s"
  by (induction s) (auto simp: replace_dot_def is_dec_not_dot)

lemma digit_guard_int: "digit_guard (PInt n) \<longleftrightarrow> 0 \<le> n"
proof (cases "0 \<le> n")
  case True
  have "list_all is_digit_char (str_nat (nat n))"
    using str_nat_digits [of "nat n"] by (induction "str_nat (nat n)") (auto simp: is_digit_char_def list_all_iff)
  with True str_nat_digits [of "nat n"] show ?thesis
    by (simp add: digit_guard_def py_str_def str_int_def isdigit_def replace_dot_digits)
next
  case False
  then show ?thesis
    by (simp add: digit_guard_def py_str_def str_int_def isdigit_def replace_dot_def
        is_digit_char_def is_dec_def)
qed

lemma read_single:
  "read [item] (PDict q) = Inr (if clauses_loop item True q = Inr True then [item] else [])"
proof (cases "clauses_loop item True q")
  case (Inl e)
  then show ?thesis
    by (simp add: read_def filtered_data_def)
next
  case (Inr match)
  then show ?thesis
    by (cases match) (simp_all add: read_def filtered_data_def)
qed

lemma op_step_range_True:
  assumes "op = ''$gte'' \<or> op = ''$lte''" and "op_step iv op bound = Inr True"
  shows "(\<exists>x. item_val iv = Inr x) \<and> (\<exists>b. py_float bound = Inr b)"
proof -
  from assms obtain fails where "compare_step fails iv bound = Inr True"
    by (auto simp: op_step_def)
  then show ?thesis
    by (auto simp: compare_step_def except_coercion_def split: sum.splits if_splits)
qed

lemma clause_holds_op:
  assumes "list_all (clause_holds item) q" and "(key, PDict ops) \<in> set q"
    and "(op, bound) \<in> set ops"
  shows "\<exists>iv. map_of item key = Some iv \<and> op_step iv op bound = Inr True"
proof -
  from assms(1,2) have "clause_holds item (key, PDict ops)"
    by (simp add: list_all_iff)
  with assms(3) show ?thesis
    by (auto simp: clause_holds_def list_all_iff split: option.splits)
qed

lemma clause_holds_field:
  assumes "list_all (clause_holds item) q" and "(key, val) \<in> set q"
  shows "map_of item key \<noteq> None"
proof -
  from assms have "clause_holds item (key, val)"
    by (simp add: list_all_iff)
  then show ?thesis
    by (auto simp: clause_holds_def split: option.splits)
qed

lemma ops_loop_stop:
  assumes "\<forall>(op', v') \<in> set pre. op_step iv op' v' = Inr True"
  shows "ops_loop iv (pre @ (op, v) # post) =
           (case op_step iv op v of
              Inl e \<Rightarrow> Inl e
            | Inr ok \<Rightarrow> if ok then ops_loop iv post else Inr False)"
  using assms by (induction pre) auto

lemma clauses_loop_single:
  "map_of item key = Some iv \<Longrightarrow> clauses_loop item True [(key, PDict ops)] = ops_loop iv ops"
  by (simp split: sum.splits)

lemma items_loop_raise:
  "\<exists>item \<in> set data. \<exists>e. clauses_loop item True query = Inl e \<Longrightarrow>
   \<exists>e. items_loop query data filtered = Inl e"
proof (induction data arbitrary: filtered)
  case Nil
  then show ?case by simp
next
  case (Cons item data)
  show ?case
  proof (cases "clauses_loop item True query")
    case (Inl e)
    then show ?thesis by simp
  next
    case (Inr match)
    with Cons.prems have "\<exists>item \<in> set data. \<exists>e. clauses_loop item True query = Inl e"
      by auto
    from Cons.IH [OF this] Inr show ?thesis
      by simp
  qed
qed

lemma items_loop_total:
  "\<forall>item \<in> set data. \<forall>e. clauses_loop item True query \<noteq> Inl e \<Longrightarrow>
   items_loop query data filtered
     = Inr (filtered @ filter (\<lambda>item. clauses_loop item True query = Inr True) data)"
proof (induction data arbitrary: filtered)
  case Nil
  then show ?case by simp
next
  case (Cons item data)
  then obtain match where "clauses_loop item True query = Inr match"
    by (cases "clauses_loop item True query") auto
  with Cons show ?case
    by (cases match) simp_all
qed

lemma read_eq:
  "read data (PDict q)
     = Inr (if \<exists>item \<in> set data. \<exists>e. clauses_loop item True q = Inl e then []
            else filter (\<lambda>item. clauses_loop item True q = Inr True) data)"
proof (cases "\<exists>item \<in> set data. \<exists>e. clauses_loop item True q = Inl e")
  case True
  from items_loop_raise [OF this, of "[]"] True show ?thesis
    by (auto simp: read_def filtered_data_def)
next
  case False
  then have "\<forall>item \<in> set data. \<forall>e. clauses_loop item True q \<noteq> Inl e"
    by blast
  from items_loop_total [OF this, of "[]"] False show ?thesis
    by (simp add: read_def filtered_data_def)
qed

text \<open>
  C2. The claim: of a clause with several operators only the first is honoured, the
  others have no effect on the match. A record of age 10 satisfies the first operator
  of \<^verbatim>\<open>{'$gte': 1, '$lte': 5}\<close> and is returned for \<^verbatim>\<open>{'$gte': 1}\<close> alone, yet the
  clause with both does not return it: the second operator decides.
\<close>

theorem second_operator_decides:
  "read [[(''age_upon_outcome_in_weeks'', PInt 10)]]
        (PDict [(''age_upon_outcome_in_weeks'', PDict [(''$gte'', PInt 1)])])
     = Inr [[(''age_upon_outcome_in_weeks'', PInt 10)]]
   \<and> read [[(''age_upon_outcome_in_weeks'', PInt 10)]]
        (PDict [(''age_upon_outcome_in_weeks'', PDict [(''$gte'', PInt 1), (''$lte'', PInt 5)])])
     = Inr []"
  by (simp add: filter_defs str_defs float_defs)

text \<open>
  C2, as the code has it: the operators of a clause are evaluated in the order of the
  mapping and all of them count. A record matches the clause exactly when every operator
  of the clause is satisfied; \<^verbatim>\<open>read\<close> of the clause returns the record then, and
  nothing otherwise. The evaluation stops at the first operator that is not satisfied:
  when the operators before it are satisfied, the clause is a non-match if that operator
  fails and raises what that operator raises, whatever the operators after it are; they
  are not evaluated. \<^verbatim>\<open>read\<close> returns the records of the store that match, in the
  order of the store, and the empty list when the filter raises on one of the records.
\<close>

theorem operators_conjunctive:
  assumes "map_of item key = Some iv"
  shows "(clauses_loop item True [(key, PDict ops)] = Inr True
            \<longleftrightarrow> (\<forall>(op, v) \<in> set ops. op_step iv op v = Inr True))
       \<and> read [item] (PDict [(key, PDict ops)])
           = Inr (if \<forall>(op, v) \<in> set ops. op_step iv op v = Inr True then [item] else [])
       \<and> ((\<forall>(op', v') \<in> set pre. op_step iv op' v' = Inr True) \<and> op_step iv op v \<noteq> Inr True
            \<longrightarrow> clauses_loop item True [(key, PDict (pre @ (op, v) # post))]
                  = (case op_step iv op v of Inl e \<Rightarrow> Inl e | Inr ok \<Rightarrow> Inr False))
       \<and> read data (PDict q)
           = Inr (if \<exists>item \<in> set data. \<exists>e. clauses_loop item True q = Inl e then []
                  else filter (\<lambda>item. clauses_loop item True q = Inr True) data)"
proof -
  have every: "clauses_loop item True [(key, PDict ops)] = Inr True
          \<longleftrightarrow> (\<forall>(op, v) \<in> set ops. op_step iv op v = Inr True)"
    using assms unfolding clauses_loop_all by (simp add: clause_holds_def list_all_iff)
  then have one: "read [item] (PDict [(key, PDict ops)])
           = Inr (if \<forall>(op, v) \<in> set ops. op_step iv op v = Inr True then [item] else [])"
    by (simp add: read_single)
  have stop: "clauses_loop item True [(key, PDict (pre @ (op, v) # post))]
                  = (case op_step iv op v of Inl e \<Rightarrow> Inl e | Inr ok \<Rightarrow> Inr False)"
    if "\<forall>(op', v') \<in> set pre. op_step iv op' v' = Inr True" and "op_step iv op v \<noteq> Inr True"
    using that(2) unfolding clauses_loop_single [OF assms] ops_loop_stop [OF that(1)]
    by (auto split: sum.splits)
  from every one stop read_eq [of data q] show ?thesis
    by blast
qed

theorem operators_conjunctive_witness:
  "read [[(''age_upon_outcome_in_weeks'', PInt 3)]]
        (PDict [(''age_upon_outcome_in_weeks'', PDict [(''$gte'', PInt 1), (''$lte'', PInt 5)])])
     = Inr [[(''age_upon_outcome_in_weeks'', PInt 3)]]
   \<and> op_step (PInt 10) ''$in'' (PStr ''123'') = Inl TypeError
   \<and> clauses_loop [(''age_upon_outcome_in_weeks'', PInt 10)] True
        [(''age_upon_outcome_in_weeks'',
          PDict [(''$gte'', PInt 1), (''$lte'', PInt 5), (''$in'', PStr ''123'')])]
     = Inr False
   \<and> read [[(''age_upon_outcome_in_weeks'', PInt 10)], [(''age_upon_outcome_in_weeks'', PStr ''3'')]]
        (PDict [(''age_upon_outcome_in_weeks'',
                 PDict [(''$gte'', PInt 1), (''$lte'', PInt 5), (''$in'', PStr ''123'')])])
     = Inr [[(''age_upon_outcome_in_weeks'', PStr ''3'')]]"
proof -
  let ?key = "''age_upon_outcome_in_weeks''"
  let ?ops = "[(''$gte'', PInt 1), (''$lte'', PInt 5), (''$in'', PStr ''123'')]"
  have three: "map_of [(?key, PInt 3)] ?key = Some (PInt 3)"
    by simp
  have ten: "map_of [(?key, PInt 10)] ?key = Some (PInt 10)"
    by simp
  have text3: "map_of [(?key, PStr ''3'')] ?key = Some (PStr ''3'')"
    by simp
  have both: "\<forall>(op, v) \<in> set [(''$gte'', PInt 1), (''$lte'', PInt 5)].
               op_step (PInt 3) op v = Inr True"
    by (simp add: filter_defs str_defs float_defs)
  have raises: "op_step (PInt 10) ''$in'' (PStr ''123'') = Inl TypeError"
    by (simp add: op_step_def)
  have before: "\<forall>(op', v') \<in> set [(''$gte'', PInt 1)]. op_step (PInt 10) op' v' = Inr True"
    by (simp add: filter_defs str_defs float_defs)
  have fails: "op_step (PInt 10) ''$lte'' (PInt 5) = Inr False"
    by (simp add: filter_defs str_defs float_defs)
  have all3: "\<forall>(op, v) \<in> set ?ops. op_step (PStr ''3'') op v = Inr True"
    by (simp add: filter_defs str_defs float_defs)
  from operators_conjunctive [OF three, of "[(''$gte'', PInt 1), (''$lte'', PInt 5)]"] both
  have first: "read [[(?key, PInt 3)]] (PDict [(?key, PDict [(''$gte'', PInt 1), (''$lte'', PInt 5)])])
     = Inr [[(?key, PInt 3)]]"
    by simp
  from operators_conjunctive [OF ten, where pre = "[(''$gte'', PInt 1)]" and op = "''$lte''"
      and v = "PInt 5" and post = "[(''$in'', PStr ''123'')]"] before fails
  have second: "clauses_loop [(?key, PInt 10)] True [(?key, PDict ?ops)] = Inr False"
    by simp
  from operators_conjunctive [OF text3, of ?ops] all3
  have third: "clauses_loop [(?key, PStr ''3'')] True [(?key, PDict ?ops)] = Inr True"
    by simp
  from operators_conjunctive [OF ten, where data = "[[(?key, PInt 10)], [(?key, PStr ''3'')]]"
      and q = "[(?key, PDict ?ops)]"] second third
  have fourth: "read [[(?key, PInt 10)], [(?key, PStr ''3'')]] (PDict [(?key, PDict ?ops)])
     = Inr [[(?key, PStr ''3'')]]"
    by simp
  from first raises second fourth show ?thesis
    by blast
qed

text \<open>
  C3. The claim: \<^verbatim>\<open>update\<close> and \<^verbatim>\<open>delete\<close> select the records that \<^verbatim>\<open>read\<close>
  returns for the same query. For the query \<^verbatim>\<open>{'age_upon_outcome_in_weeks':
  {'$gte': 26}}\<close> and a record of age 52, \<^verbatim>\<open>read\<close> returns the record, while
  \<^verbatim>\<open>update\<close> and \<^verbatim>\<open>delete\<close> leave it alone and return 0: \<^verbatim>\<open>_item_matches_query\<close>
  compares the field with the operator mapping itself.
\<close>

theorem operator_query_read_but_not_updated_or_deleted:
  "read [[(''age_upon_outcome_in_weeks'', PInt 52)]]
        (PDict [(''age_upon_outcome_in_weeks'', PDict [(''$gte'', PInt 26)])])
     = Inr [[(''age_upon_outcome_in_weeks'', PInt 52)]]
   \<and> update [[(''age_upon_outcome_in_weeks'', PInt 52)]]
        (PDict [(''age_upon_outcome_in_weeks'', PDict [(''$gte'', PInt 26)])])
        (PDict [(''outcome_type'', PStr ''Adoption'')]) True
     = Inr ([[(''age_upon_outcome_in_weeks'', PInt 52)]], 0)
   \<and> delete [[(''age_upon_outcome_in_weeks'', PInt 52)]]
        (PDict [(''age_upon_outcome_in_weeks'', PDict [(''$gte'', PInt 26)])]) True
     = Inr ([[(''age_upon_outcome_in_weeks'', PInt 52)]], 0)"
  by (simp add: filter_defs str_defs float_defs update_def delete_def py_ne_def)

text \<open>
  C5. The claim: a value or a bound that fails numeric coercion never raises and always
  makes the clause a non-match. A record whose age is the text \<^verbatim>\<open>unknown\<close>, which
  \<^verbatim>\<open>float\<close> rejects, is returned for \<^verbatim>\<open>{'$lte': 5}\<close>: the value is read as 0.
\<close>

theorem unparseable_value_matches:
  "py_float (PStr ''unknown'') = Inl ValueError
   \<and> read [[(''age_upon_outcome_in_weeks'', PStr ''unknown'')]]
        (PDict [(''age_upon_outcome_in_weeks'', PDict [(''$lte'', PInt 5)])])
     = Inr [[(''age_upon_outcome_in_weeks'', PStr ''unknown'')]]"
  by (simp add: filter_defs str_defs float_defs)

text \<open>
  C5, as the code has it. A comparison \<^verbatim>\<open>$gte\<close> or \<^verbatim>\<open>$lte\<close> lets no
  \<^verbatim>\<open>ValueError\<close> and no \<^verbatim>\<open>TypeError\<close> out. It is a non-match when the value of
  the record passes the digit test and \<^verbatim>\<open>float\<close> rejects it, and when \<^verbatim>\<open>float\<close>
  rejects the bound; a value that fails the digit test is not a failure, it is read as
  0. A clause on a field that the record does not have is a non-match. \<^verbatim>\<open>read\<close>
  with a dictionary as its query never raises, and it returns no record that lacks a
  field of the query, none for a bound that \<^verbatim>\<open>float\<close> rejects, and none whose value
  passes the digit test and is rejected by \<^verbatim>\<open>float\<close>.
\<close>

theorem coercion_failure_is_no_match:
  assumes "op = ''$gte'' \<or> op = ''$lte''"
  shows "op_step iv op bound \<noteq> Inl ValueError \<and> op_step iv op bound \<noteq> Inl TypeError
       \<and> (digit_guard iv \<and> py_float iv = Inl ValueError \<longrightarrow> op_step iv op bound = Inr False)
       \<and> (item_val iv \<noteq> Inl OverflowError
            \<and> (py_float bound = Inl ValueError \<or> py_float bound = Inl TypeError)
            \<longrightarrow> op_step iv op bound = Inr False)
       \<and> (map_of item key = None \<longrightarrow> clauses_loop item match ((key, val) # query) = Inr False)
       \<and> (\<exists>out. read data (PDict q) = Inr out)
       \<and> (\<forall>out. read data (PDict q) = Inr out \<and> (key, val) \<in> set q \<and> map_of item key = None
            \<longrightarrow> item \<notin> set out)
       \<and> (\<forall>out ops. read data (PDict q) = Inr out \<and> (key, PDict ops) \<in> set q
               \<and> (op, bound) \<in> set ops \<and> (\<exists>e. py_float bound = Inl e)
            \<longrightarrow> item \<notin> set out)
       \<and> (\<forall>out ops. read data (PDict q) = Inr out \<and> (key, PDict ops) \<in> set q
               \<and> (op, bound) \<in> set ops \<and> map_of item key = Some iv
               \<and> digit_guard iv \<and> (\<exists>e. py_float iv = Inl e)
            \<longrightarrow> item \<notin> set out)"
proof -
  from assms obtain fails where step: "op_step iv op bound = compare_step fails iv bound"
    by (auto simp: op_step_def)
  have caught: "op_step iv op bound \<noteq> Inl ValueError \<and> op_step iv op bound \<noteq> Inl TypeError"
    using compare_step_caught [of fails iv bound] by (simp add: step)
  have "value": "digit_guard iv \<and> py_float iv = Inl ValueError \<longrightarrow> op_step iv op bound = Inr False"
    by (simp add: step compare_step_value_rejected)
  have bound: "item_val iv \<noteq> Inl OverflowError
      \<and> (py_float bound = Inl ValueError \<or> py_float bound = Inl TypeError)
      \<longrightarrow> op_step iv op bound = Inr False"
    using compare_step_bound_rejected [of iv bound fails] by (auto simp: step)
  have missing: "map_of item key = None \<longrightarrow> clauses_loop item match ((key, val) # query) = Inr False"
    by simp
  have no_field: "item \<notin> set out"
    if "read data (PDict q) = Inr out \<and> (key, val) \<in> set q \<and> map_of item key = None" for out
  proof
    assume "item \<in> set out"
    with that read_sound [of data q out item] have "list_all (clause_holds item) q"
      by simp
    from clause_holds_field [OF this, of key val] that show False
      by simp
  qed
  have bad_bound: "item \<notin> set out"
    if "read data (PDict q) = Inr out \<and> (key, PDict ops) \<in> set q
        \<and> (op, bound) \<in> set ops \<and> (\<exists>e. py_float bound = Inl e)" for out ops
  proof
    assume "item \<in> set out"
    with that read_sound [of data q out item] have "list_all (clause_holds item) q"
      by simp
    from clause_holds_op [OF this, of key ops op bound] that
    obtain iv' where "op_step iv' op bound = Inr True"
      by auto
    from op_step_range_True [OF assms this] that show False
      by auto
  qed
  have bad_value: "item \<notin> set out"
    if "read data (PDict q) = Inr out \<and> (key, PDict ops) \<in> set q
        \<and> (op, bound) \<in> set ops \<and> map_of item key = Some iv
        \<and> digit_guard iv \<and> (\<exists>e. py_float iv = Inl e)" for out ops
  proof
    assume "item \<in> set out"
    with that read_sound [of data q out item] have "list_all (clause_holds item) q"
      by simp
    from clause_holds_op [OF this, of key ops op bound] that
    have "op_step iv op bound = Inr True"
      by auto
    from op_step_range_True [OF assms this] that show False
      by (auto simp: item_val_def)
  qed
  from caught "value" bound missing read_total [of data q] no_field bad_bound bad_value
  show ?thesis
    by blast
qed
theorem coercion_failure_is_no_match_witness:
  "op_step (PStr ''1.2.3'') ''$lte'' (PInt 5) = Inr False
   \<and> op_step (PInt 40) ''$lte'' (PStr ''ten'') = Inr False
   \<and> clauses_loop [(''name'', PStr ''Rex'')] True
        [(''age_upon_outcome_in_weeks'', PDict [(''$lte'', PInt 5)])] = Inr False"
proof -
  have op: "''$lte'' = ''$gte'' \<or> ''$lte'' = ''$lte''"
    by simp
  have rejected: "digit_guard (PStr ''1.2.3'') \<and> py_float (PStr ''1.2.3'') = Inl ValueError"
    by (simp add: str_defs float_defs)
  have bound: "item_val (PInt 40) \<noteq> Inl OverflowError
      \<and> (py_float (PStr ''ten'') = Inl ValueError \<or> py_float (PStr ''ten'') = Inl TypeError)"
    by (simp add: item_val_def str_defs float_defs)
  have missing: "map_of [(''name'', PStr ''Rex'')] ''age_upon_outcome_in_weeks'' = None"
    by simp
  from coercion_failure_is_no_match [OF op, where iv = "PStr ''1.2.3''" and bound = "PInt 5"]
    rejected
  have first: "op_step (PStr ''1.2.3'') ''$lte'' (PInt 5) = Inr False"
    by blast
  from coercion_failure_is_no_match [OF op, where iv = "PInt 40" and bound = "PStr ''ten''"]
    bound
  have second: "op_step (PInt 40) ''$lte'' (PStr ''ten'') = Inr False"
    by blast
  from coercion_failure_is_no_match [OF op, where item = "[(''name'', PStr ''Rex'')]"
      and key = "''age_upon_outcome_in_weeks''" and match = True
      and val = "PDict [(''$lte'', PInt 5)]" and query = "[]"] missing
  have third: "clauses_loop [(''name'', PStr ''Rex'')] True
                 [(''age_upon_outcome_in_weeks'', PDict [(''$lte'', PInt 5)])] = Inr False"
    by blast
  from first second third show ?thesis
    by blast
qed

lemma digit_guard_negative_float: "r < 0 \<Longrightarrow> \<not> digit_guard (PFloat (Fin r))"
  by (simp add: digit_guard_def py_str_def isdigit_def replace_dot_def is_digit_char_def
      is_dec_def)

lemma digit_guard_special:
  "\<not> digit_guard (PFloat PInf) \<and> \<not> digit_guard (PFloat NInf) \<and> \<not> digit_guard (PFloat NaN)"
  by (simp add: digit_guard_def py_str_def isdigit_def replace_dot_def is_digit_char_def
      is_dec_def)

text \<open>
  The cases of a comparison \<^verbatim>\<open>$gte\<close> or \<^verbatim>\<open>$lte\<close>. The value of the record
  is read as a number only when it is an \<^verbatim>\<open>int\<close>, a \<^verbatim>\<open>float\<close> or a string whose
  text without its dots is all digits: a non-negative \<^verbatim>\<open>int\<close> passes this test, a
  negative \<^verbatim>\<open>int\<close> or \<^verbatim>\<open>float\<close> does not. A value that fails the test is read as
  0, and 0 is compared with the coerced bound. A value that passes is compared by the
  number \<^verbatim>\<open>float\<close> makes of it, and is a non-match when \<^verbatim>\<open>float\<close> rejects it. A
  bound that \<^verbatim>\<open>float\<close> rejects is a non-match.
\<close>

lemma range_comparison_cases:
  "(\<not> digit_guard iv \<and> py_float bound = Inr b \<longrightarrow>
       op_step iv ''$gte'' bound = Inr (\<not> float_lt (Fin 0) b)
     \<and> op_step iv ''$lte'' bound = Inr (\<not> float_gt (Fin 0) b))
   \<and> (digit_guard iv \<and> py_float iv = Inr x \<and> py_float bound = Inr b \<longrightarrow>
       op_step iv ''$gte'' bound = Inr (\<not> float_lt x b)
     \<and> op_step iv ''$lte'' bound = Inr (\<not> float_gt x b))
   \<and> (digit_guard iv \<and> py_float iv = Inl ValueError \<longrightarrow>
       op_step iv ''$gte'' bound = Inr False \<and> op_step iv ''$lte'' bound = Inr False)
   \<and> (item_val iv \<noteq> Inl OverflowError
        \<and> (py_float bound = Inl ValueError \<or> py_float bound = Inl TypeError) \<longrightarrow>
       op_step iv ''$gte'' bound = Inr False \<and> op_step iv ''$lte'' bound = Inr False)
   \<and> (digit_guard (PInt n) \<longleftrightarrow> 0 \<le> n)
   \<and> (digit_guard (PStr s) \<longleftrightarrow> isdigit (replace_dot s))
   \<and> (digit_guard (PFloat (Fin r)) \<longrightarrow> 0 \<le> r)"
proof -
  have zero: "\<not> digit_guard iv \<and> py_float bound = Inr b \<longrightarrow>
       op_step iv ''$gte'' bound = Inr (\<not> float_lt (Fin 0) b)
     \<and> op_step iv ''$lte'' bound = Inr (\<not> float_gt (Fin 0) b)"
    by (simp add: op_step_gte op_step_lte compare_step_zero)
  have numeric: "digit_guard iv \<and> py_float iv = Inr x \<and> py_float bound = Inr b \<longrightarrow>
       op_step iv ''$gte'' bound = Inr (\<not> float_lt x b)
     \<and> op_step iv ''$lte'' bound = Inr (\<not> float_gt x b)"
    by (simp add: op_step_gte op_step_lte compare_step_numeric)
  have rejected: "digit_guard iv \<and> py_float iv = Inl ValueError \<longrightarrow>
       op_step iv ''$gte'' bound = Inr False \<and> op_step iv ''$lte'' bound = Inr False"
    by (simp add: op_step_gte op_step_lte compare_step_value_rejected)
  have bound: "item_val iv \<noteq> Inl OverflowError
        \<and> (py_float bound = Inl ValueError \<or> py_float bound = Inl TypeError) \<longrightarrow>
       op_step iv ''$gte'' bound = Inr False \<and> op_step iv ''$lte'' bound = Inr False"
    using compare_step_bound_rejected [of iv bound]
    by (auto simp: op_step_gte op_step_lte)
  have strings: "digit_guard (PStr s) \<longleftrightarrow> isdigit (replace_dot s)"
    by (simp add: digit_guard_def py_str_def)
  have floats: "digit_guard (PFloat (Fin r)) \<longrightarrow> 0 \<le> r"
    by (metis digit_guard_negative_float not_le)
  from zero numeric rejected bound digit_guard_int [of n] strings floats show ?thesis
    by blast
qed

text \<open>
  C6. The claim: a value that is not a parseable number is read as 0, a bound that fails
  coercion yields non-match, and every parseable number, negative ones included, is
  compared by its value. A record of age \<open>-5\<close> is returned for \<^verbatim>\<open>{'$gte': -1}\<close>, and
  a record of longitude \<open>-97.48\<close>, the first of the canned data set, is returned for
  \<^verbatim>\<open>{'$gte': -97}\<close>: the minus sign fails the digit test
  \<^verbatim>\<open>str(v).replace('.', '').isdigit()\<close> and the number is read as 0. A number
  without a sign is compared by its value: the latitude \<open>30.75\<close> is returned neither
  for \<^verbatim>\<open>{'$gte': 31}\<close> nor for \<^verbatim>\<open>{'$lte': 30}\<close>. And a record whose age is the
  text \<^verbatim>\<open>1.2.3\<close>, not a number, is not returned for \<^verbatim>\<open>{'$lte': 5}\<close>: it passes the
  digit test and \<^verbatim>\<open>float\<close> rejects it.
\<close>

theorem negative_value_read_as_zero:
  "read [[(''age_upon_outcome_in_weeks'', PInt (- 5))]]
        (PDict [(''age_upon_outcome_in_weeks'', PDict [(''$gte'', PInt (- 1))])])
     = Inr [[(''age_upon_outcome_in_weeks'', PInt (- 5))]]
   \<and> read [[(''location_long'', float_lit (- (9748 / 100)))]]
        (PDict [(''location_long'', PDict [(''$gte'', PInt (- 97))])])
     = Inr [[(''location_long'', float_lit (- (9748 / 100)))]]
   \<and> read [[(''location_lat'', float_lit (3075 / 100))]]
        (PDict [(''location_lat'', PDict [(''$gte'', PInt 31)])])
     = Inr []
   \<and> read [[(''location_lat'', float_lit (3075 / 100))]]
        (PDict [(''location_lat'', PDict [(''$lte'', PInt 30)])])
     = Inr []
   \<and> py_float (PStr ''1.2.3'') = Inl ValueError
   \<and> read [[(''age_upon_outcome_in_weeks'', PStr ''1.2.3'')]]
        (PDict [(''age_upon_outcome_in_weeks'', PDict [(''$lte'', PInt 5)])])
     = Inr []"
proof -
  have age: "read [[(''age_upon_outcome_in_weeks'', PInt (- 5))]]
        (PDict [(''age_upon_outcome_in_weeks'', PDict [(''$gte'', PInt (- 1))])])
     = Inr [[(''age_upon_outcome_in_weeks'', PInt (- 5))]]"
    by (simp add: filter_defs str_defs float_defs)
  have long: "float_lit (- (9748 / 100)) = PFloat (Fin (- (6859545182438687 / 70368744177664)))"
    by (simp add: float_defs)
  have longitude: "read [[(''location_long'', float_lit (- (9748 / 100)))]]
        (PDict [(''location_long'', PDict [(''$gte'', PInt (- 97))])])
     = Inr [[(''location_long'', float_lit (- (9748 / 100)))]]"
    unfolding long by (simp add: filter_defs str_defs float_defs)
  have lat: "float_lit (3075 / 100) = PFloat (Fin (123 / 4))"
    by (simp add: float_defs)
  have guard: "digit_guard (PFloat (Fin (123 / 4)))"
    by (simp add: str_defs float_defs repr_defs)
  have latitude: "read [[(''location_lat'', float_lit (3075 / 100))]]
        (PDict [(''location_lat'', PDict [(''$gte'', PInt 31)])]) = Inr []
      \<and> read [[(''location_lat'', float_lit (3075 / 100))]]
        (PDict [(''location_lat'', PDict [(''$lte'', PInt 30)])]) = Inr []"
    unfolding lat using guard
    by (simp add: read_def filtered_data_def op_step_def compare_step_def item_val_def
        except_coercion_def float_defs)
  have dots: "py_float (PStr ''1.2.3'') = Inl ValueError
      \<and> read [[(''age_upon_outcome_in_weeks'', PStr ''1.2.3'')]]
        (PDict [(''age_upon_outcome_in_weeks'', PDict [(''$lte'', PInt 5)])]) = Inr []"
    by (simp add: filter_defs str_defs float_defs)
  from age longitude latitude dots show ?thesis
    by blast
qed

subsection \<open>The rescue counters\<close>

lemma py_eq_str: "py_eq v (PStr s) \<longleftrightarrow> v = PStr s"
  by (cases v) auto

lemma in_list_iff: "in_list x names \<longleftrightarrow> x \<in> PStr ` set names"
  by (auto simp: in_list_def list_ex_iff py_eq_str)

lemma float_window:
  "float_le (Fin lo) a \<and> float_le a (Fin hi)
     \<longleftrightarrow> (case a of Fin weeks \<Rightarrow> lo \<le> weeks \<and> weeks \<le> hi | _ \<Rightarrow> False)"
  by (cases a) (auto simp: float_le_def)

lemma rescue_step_counted:
  "rescue_step breeds sex lo hi item = Inr True
     \<longleftrightarrow> rescue_candidate breeds sex item
         \<and> age_in_window lo hi (dict_get item ''age_upon_outcome_in_weeks'')"
  by (auto simp: rescue_step_def rescue_candidate_def age_in_window_def py_eq_str in_list_iff
      float_window Let_def split: sum.splits pyfloat.splits)

lemma rescue_step_raises:
  "rescue_step breeds sex lo hi item = Inl e
     \<longleftrightarrow> rescue_candidate breeds sex item \<and> age_overflows item \<and> e = OverflowError"
  by (auto simp: rescue_step_def rescue_candidate_def age_overflows_def py_eq_str in_list_iff
      Let_def split: sum.splits dest: py_float_exn)

lemma count_loop_raise:
  assumes "\<exists>item \<in> set data. \<exists>e. step item = Inl e"
    and "\<And>item e. step item = Inl e \<Longrightarrow> e = e0"
  shows "count_loop step data count = Inl e0"
  using assms(1)
proof (induction data arbitrary: count)
  case Nil
  then show ?case by simp
next
  case (Cons item data)
  show ?case
  proof (cases "step item")
    case (Inl e)
    with assms(2) [of item e] show ?thesis by simp
  next
    case (Inr counted)
    with Cons show ?thesis by simp
  qed
qed

lemma count_loop_total:
  assumes "\<forall>item \<in> set data. \<forall>e. step item \<noteq> Inl e"
  shows "count_loop step data count
           = Inr (count + length (filter (\<lambda>item. step item = Inr True) data))"
  using assms
proof (induction data arbitrary: count)
  case Nil
  then show ?case by simp
next
  case (Cons item data)
  then obtain counted where "step item = Inr counted"
    by (cases "step item") auto
  with Cons show ?case
    by (cases counted) simp_all
qed





lemma rescue_count:
  "count_loop (rescue_step breeds sex lo hi) data 0 =
     (if list_ex (\<lambda>item. rescue_candidate breeds sex item \<and> age_overflows item) data
      then Inl OverflowError
      else Inr (length (filter (\<lambda>item. rescue_candidate breeds sex item
                  \<and> age_in_window lo hi (dict_get item ''age_upon_outcome_in_weeks'')) data)))"
proof (cases "list_ex (\<lambda>item. rescue_candidate breeds sex item \<and> age_overflows item) data")
  case True
  then have "\<exists>item \<in> set data. \<exists>e. rescue_step breeds sex lo hi item = Inl e"
    by (auto simp: list_ex_iff rescue_step_raises)
  from count_loop_raise [OF this, of OverflowError 0] True show ?thesis
    by (simp add: rescue_step_raises)
next
  case False
  then have "\<forall>item \<in> set data. \<forall>e. rescue_step breeds sex lo hi item \<noteq> Inl e"
    by (auto simp: list_ex_iff rescue_step_raises)
  from count_loop_total [OF this, of 0] False show ?thesis
    by (simp add: rescue_step_counted)
qed



text \<open>
  C8. A record counts towards the total of water rescue exactly when it is a dog of
  breed Labrador Retriever Mix, Chesapeake Bay Retriever or Newfoundland, an intact
  female, and its age in weeks is either not given or a number from 26 to 156; the
  total is the number of such records. (The counter returns this total unless one of
  these dogs has an \<^verbatim>\<open>int\<close> age beyond the range of a float, on which \<^verbatim>\<open>float\<close>
  raises.)
\<close>

theorem water_rescue_count:
  "(rescue_step water_breeds ''Intact Female'' 26 156 item = Inr True
      \<longleftrightarrow> water_rescue_eligible item)
   \<and> count_water_rescue_dogs data =
       (if list_ex (\<lambda>item. rescue_candidate water_breeds ''Intact Female'' item
                      \<and> age_overflows item) data
        then Inl OverflowError
        else Inr (length (filter water_rescue_eligible data)))"
proof -
  have eligible: "water_rescue_eligible = (\<lambda>item. rescue_candidate water_breeds ''Intact Female'' item
      \<and> age_in_window 26 156 (dict_get item ''age_upon_outcome_in_weeks''))"
    by (simp add: water_rescue_eligible_def water_breeds_def fun_eq_iff)
  show ?thesis
    unfolding count_water_rescue_dogs_def rescue_count rescue_step_counted eligible
    by simp
qed

theorem water_rescue_count_witness:
  "count_water_rescue_dogs
     [[(''animal_type'', PStr ''Dog''), (''breed'', PStr ''Labrador Retriever Mix''),
       (''sex_upon_outcome'', PStr ''Intact Female''), (''age_upon_outcome_in_weeks'', PInt 200)],
      [(''animal_type'', PStr ''Dog''), (''breed'', PStr ''Labrador Retriever Mix''),
       (''sex_upon_outcome'', PStr ''Intact Female''), (''age_upon_outcome_in_weeks'', PInt 52)],
      [(''animal_type'', PStr ''Dog''), (''breed'', PStr ''Newfoundland''),
       (''sex_upon_outcome'', PStr ''Intact Female'')]]
   = Inr 2"
proof -
  let ?data =
    "[[(''animal_type'', PStr ''Dog''), (''breed'', PStr ''Labrador Retriever Mix''),
       (''sex_upon_outcome'', PStr ''Intact Female''), (''age_upon_outcome_in_weeks'', PInt 200)],
      [(''animal_type'', PStr ''Dog''), (''breed'', PStr ''Labrador Retriever Mix''),
       (''sex_upon_outcome'', PStr ''Intact Female''), (''age_upon_outcome_in_weeks'', PInt 52)],
      [(''animal_type'', PStr ''Dog''), (''breed'', PStr ''Newfoundland''),
       (''sex_upon_outcome'', PStr ''Intact Female'')]]"
  have no_overflow: "list_ex (\<lambda>item. rescue_candidate water_breeds ''Intact Female'' item
      \<and> age_overflows item) ?data = False"
    by (simp add: age_overflows_def dict_get_def float_limit_def)
  have eligible: "length (filter water_rescue_eligible ?data) = 2"
    by (simp add: water_rescue_eligible_def rescue_candidate_def age_in_window_def dict_get_def
        float_limit_def round_defs)
  show ?thesis
    by (simp only: water_rescue_count [THEN conjunct2] no_overflow eligible if_False)
qed



section \<open>Properties of the demo mode\<close>

lemma read_without_auth_demo:
  "\<not> connection_successful self \<Longrightarrow> read_without_auth self db_find query = mock_data"
  by (simp add: read_without_auth_def)

lemma read_mongo_demo:
  "\<not> connection_successful self \<Longrightarrow> read_mongo self db_find query username = mock_data"
  by (simp add: read_mongo_def read_without_auth_def)

text \<open>
  C4. The claim: without a connection, \<^verbatim>\<open>read(query)\<close> returns the records of the
  canned data set that match the query, filtered as a live read filters. Without a
  connection \<^verbatim>\<open>read\<close> of the query \<^verbatim>\<open>{'animal_type': 'Cat'}\<close> returns the seven
  canned records, six dogs among them, the first of which is the dog \<^verbatim>\<open>A001\<close>; the
  filter of the first artifact keeps of these seven the one cat \<^verbatim>\<open>A006\<close>.
\<close>

theorem demo_read_returns_dogs_for_cats:
  "read_mongo \<lparr>connection_successful = False, auth_enabled = False\<rparr> find_unreachable
        (PDict [(''animal_type'', PStr ''Cat'')]) ''analyst'' = mock_data
   \<and> length mock_data = 7
   \<and> map_of (hd mock_data) ''animal_type'' = Some (PStr ''Dog'')
   \<and> read mock_data (PDict [(''animal_type'', PStr ''Cat'')])
       = Inr [[(''animal_id'', PStr ''A006''), (''animal_type'', PStr ''Cat''),
               (''breed'', PStr ''Siamese''), (''age_upon_outcome_in_weeks'', PInt 26),
               (''outcome_type'', PStr ''Transfer''), (''sex_upon_outcome'', PStr ''Spayed Female''),
               (''name'', PStr ''Whiskers''), (''location_lat'', float_lit (3078 / 100)),
               (''location_long'', float_lit (- (9751 / 100)))]]"
  by (simp add: read_mongo_def read_without_auth_def mock_data_def filter_defs str_defs)

text \<open>
  C4, as the code has it: without a connection, \<^verbatim>\<open>read\<close> and
  \<^verbatim>\<open>read_without_auth\<close> return the whole canned data set, whatever the query, the
  user and the database are; any two such reads return the same seven records.
\<close>

theorem demo_read_ignores_query:
  assumes "\<not> connection_successful self"
  shows "read_mongo self db_find query username = mock_data
       \<and> read_without_auth self db_find query = mock_data
       \<and> read_mongo self db_find query username = read_mongo self db_find' query' username'
       \<and> length (read_mongo self db_find query username) = 7"
  using assms by (simp add: read_mongo_demo read_without_auth_demo) (simp add: mock_data_def)

theorem demo_read_ignores_query_witness:
  "read_mongo \<lparr>connection_successful = False, auth_enabled = True\<rparr> find_unreachable
        (PDict [(''animal_type'', PStr ''Cat'')]) ''analyst''
     = read_mongo \<lparr>connection_successful = False, auth_enabled = True\<rparr> find_unreachable
        (PDict [(''breed'', PStr ''Bloodhound'')]) ''admin''
   \<and> length (read_mongo \<lparr>connection_successful = False, auth_enabled = True\<rparr> find_unreachable
        (PDict [(''animal_type'', PStr ''Cat'')]) ''analyst'') = 7"
proof -
  have demo: "\<not> connection_successful \<lparr>connection_successful = False, auth_enabled = True\<rparr>"
    by simp
  from demo_read_ignores_query [OF demo, of find_unreachable
      "PDict [(''animal_type'', PStr ''Cat'')]" "''analyst''" find_unreachable
      "PDict [(''breed'', PStr ''Bloodhound'')]" "''admin''"]
  show ?thesis
    by blast
qed

text \<open>
  C9. Without a connection each of the four aggregations (the performance of the breeds,
  the analytics of the rescue types, the monthly trend of adoptions, the demographics)
  returns its canned result: two calls return the same result, whatever the database
  would have answered and whatever the argument \<^verbatim>\<open>months\<close> is. The same canned
  result is returned with a connection when the computation raises.
\<close>

theorem demo_aggregations_constant:
  assumes "\<not> connection_successful self" and "\<not> connection_successful self'"
  shows "get_breed_performance_metrics self live = get_mock_breed_performance
       \<and> get_rescue_type_analytics self live = get_mock_rescue_analytics
       \<and> get_monthly_adoption_trends self trends months = get_mock_adoption_trends
       \<and> get_animal_demographics self live = get_mock_demographics
       \<and> get_breed_performance_metrics self live = get_breed_performance_metrics self' live'
       \<and> get_rescue_type_analytics self live = get_rescue_type_analytics self' live'
       \<and> get_monthly_adoption_trends self trends months
           = get_monthly_adoption_trends self' trends' months'
       \<and> get_animal_demographics self live = get_animal_demographics self' live'
       \<and> get_breed_performance_metrics other (Inl e) = get_mock_breed_performance
       \<and> get_rescue_type_analytics other (Inl e) = get_mock_rescue_analytics
       \<and> get_monthly_adoption_trends other aggregate_unreachable months = get_mock_adoption_trends
       \<and> get_animal_demographics other (Inl e) = get_mock_demographics"
  using assms
  by (simp add: get_breed_performance_metrics_def get_rescue_type_analytics_def
      get_monthly_adoption_trends_def get_animal_demographics_def aggregate_unreachable_def)

theorem demo_aggregations_constant_witness:
  "get_monthly_adoption_trends \<lparr>connection_successful = False, auth_enabled = False\<rparr>
       aggregate_unreachable (PInt 3)
     = get_monthly_adoption_trends \<lparr>connection_successful = False, auth_enabled = True\<rparr>
       aggregate_unreachable (PInt 12)
   \<and> get_monthly_adoption_trends \<lparr>connection_successful = False, auth_enabled = False\<rparr>
       aggregate_unreachable (PInt 3) = get_mock_adoption_trends
   \<and> get_breed_performance_metrics \<lparr>connection_successful = False, auth_enabled = False\<rparr>
       (Inr (PList []))
     = get_breed_performance_metrics \<lparr>connection_successful = False, auth_enabled = True\<rparr>
       (Inl Exception)"
proof -
  have demo: "\<not> connection_successful \<lparr>connection_successful = False, auth_enabled = False\<rparr>"
    by simp
  have demo': "\<not> connection_successful \<lparr>connection_successful = False, auth_enabled = True\<rparr>"
    by simp
  from demo_aggregations_constant [OF demo demo', where live = "Inr (PList [])"
      and trends = aggregate_unreachable and months = "PInt 3" and live' = "Inl Exception"
      and trends' = aggregate_unreachable and months' = "PInt 12"]
  show ?thesis
    by blast
qed

end
